theory Spec2Isabelle
  imports Complex_Main
begin

section \<open>Python primitives used by the generator\<close>

text \<open>
  Python floats are modelled as real numbers with exact arithmetic, Python integers as
  \<^typ>\<open>int\<close>, strings as \<^typ>\<open>string\<close>. The decimal literals of the source
  (\<open>0.1\<close>, \<open>1.5\<close>, ...) denote the corresponding rationals.
\<close>

datatype error = KeyError | IndexError | ZeroDivisionError

text \<open>\<open>d[k]\<close> on a dictionary written as the list of its items (keys are distinct in
  every literal of the source).\<close>

definition dict_get :: "('k \<times> 'v) list \<Rightarrow> 'k \<Rightarrow> error + 'v" where
  "dict_get d k = (case map_of d k of None \<Rightarrow> Inl KeyError | Some v \<Rightarrow> Inr v)"

text \<open>\<open>xs[i]\<close> on a list: a negative index counts from the end, anything else out of
  range raises.\<close>

definition list_get :: "'a list \<Rightarrow> int \<Rightarrow> error + 'a" where
  "list_get xs i =
     (if 0 \<le> i \<and> i < int (length xs) then Inr (xs ! nat i)
      else if - int (length xs) \<le> i \<and> i < 0 then Inr (xs ! nat (int (length xs) + i))
      else Inl IndexError)"

text \<open>\<open>int(x)\<close> truncates towards zero.\<close>

definition py_int :: "real \<Rightarrow> int" where
  "py_int x = (if 0 \<le> x then \<lfloor>x\<rfloor> else \<lceil>x\<rceil>)"

text \<open>\<open>round(x, n)\<close> rounds to \<open>n\<close> decimals, ties to the even neighbour.\<close>

definition round_half_even :: "real \<Rightarrow> int" where
  "round_half_even x =
     (let f = \<lfloor>x\<rfloor>; d = x - of_int f in
      if d < 1 / 2 then f else if 1 / 2 < d then f + 1 else if even f then f else f + 1)"

definition py_round :: "real \<Rightarrow> nat \<Rightarrow> real" where
  "py_round x n = of_int (round_half_even (x * 10 ^ n)) / 10 ^ n"

text \<open>\<open>s.upper()\<close> on the ASCII letters; every country name of the source is ASCII.\<close>

definition upper_char :: "char \<Rightarrow> char" where
  "upper_char c =
     (case map_of (zip ''abcdefghijklmnopqrstuvwxyz'' ''ABCDEFGHIJKLMNOPQRSTUVWXYZ'') c of
        None \<Rightarrow> c | Some u \<Rightarrow> u)"

definition upper :: "string \<Rightarrow> string" where
  "upper s = map upper_char s"

section \<open>The pseudo-random source\<close>

text \<open>
  \<open>numpy.random\<close> keeps one global generator state. The library is not part of the
  repository, so it is a parameter: a state type \<open>'g\<close> with the three operations the
  generator calls. Each draw returns the value and the next state.
\<close>

record 'g np_random =
  random_seed :: "nat \<Rightarrow> 'g"
  random_normal :: "real \<Rightarrow> real \<Rightarrow> 'g \<Rightarrow> real \<times> 'g"
  random_uniform :: "real \<Rightarrow> real \<Rightarrow> 'g \<Rightarrow> real \<times> 'g"

section \<open>Static reference data\<close>

record country_info =
  region :: string
  population :: int
  gdp_per_capita :: int
  tourism_maturity :: string

definition countries_data :: "(string \<times> country_info) list" where
  "countries_data = [
  (''France'', \<lparr>region = ''Europe'', population = 67390000, gdp_per_capita = 42000, tourism_maturity = ''mature''\<rparr>),
  (''Spain'', \<lparr>region = ''Europe'', population = 47350000, gdp_per_capita = 30000, tourism_maturity = ''mature''\<rparr>),
  (''Italy'', \<lparr>region = ''Europe'', population = 60360000, gdp_per_capita = 35000, tourism_maturity = ''mature''\<rparr>),
  (''Germany'', \<lparr>region = ''Europe'', population = 83190000, gdp_per_capita = 48000, tourism_maturity = ''mature''\<rparr>),
  (''United Kingdom'', \<lparr>region = ''Europe'', population = 67220000, gdp_per_capita = 45000, tourism_maturity = ''mature''\<rparr>),
  (''Netherlands'', \<lparr>region = ''Europe'', population = 17130000, gdp_per_capita = 52000, tourism_maturity = ''mature''\<rparr>),
  (''Switzerland'', \<lparr>region = ''Europe'', population = 8650000, gdp_per_capita = 85000, tourism_maturity = ''mature''\<rparr>),
  (''Austria'', \<lparr>region = ''Europe'', population = 9006000, gdp_per_capita = 50000, tourism_maturity = ''mature''\<rparr>),
  (''Greece'', \<lparr>region = ''Europe'', population = 10423000, gdp_per_capita = 20000, tourism_maturity = ''mature''\<rparr>),
  (''Portugal'', \<lparr>region = ''Europe'', population = 10196000, gdp_per_capita = 25000, tourism_maturity = ''mature''\<rparr>),
  (''Poland'', \<lparr>region = ''Eastern Europe'', population = 38386000, gdp_per_capita = 18000, tourism_maturity = ''emerging''\<rparr>),
  (''Czech Republic'', \<lparr>region = ''Eastern Europe'', population = 10700000, gdp_per_capita = 23000, tourism_maturity = ''emerging''\<rparr>),
  (''Hungary'', \<lparr>region = ''Eastern Europe'', population = 9773000, gdp_per_capita = 17000, tourism_maturity = ''emerging''\<rparr>),
  (''Romania'', \<lparr>region = ''Eastern Europe'', population = 19240000, gdp_per_capita = 14000, tourism_maturity = ''emerging''\<rparr>),
  (''Croatia'', \<lparr>region = ''Eastern Europe'', population = 4105000, gdp_per_capita = 17000, tourism_maturity = ''emerging''\<rparr>),
  (''United States'', \<lparr>region = ''North America'', population = 331000000, gdp_per_capita = 65000, tourism_maturity = ''mature''\<rparr>),
  (''Canada'', \<lparr>region = ''North America'', population = 38000000, gdp_per_capita = 45000, tourism_maturity = ''mature''\<rparr>),
  (''Mexico'', \<lparr>region = ''North America'', population = 128900000, gdp_per_capita = 10000, tourism_maturity = ''emerging''\<rparr>),
  (''Costa Rica'', \<lparr>region = ''Central America'', population = 5094000, gdp_per_capita = 12000, tourism_maturity = ''emerging''\<rparr>),
  (''Panama'', \<lparr>region = ''Central America'', population = 4315000, gdp_per_capita = 15000, tourism_maturity = ''emerging''\<rparr>),
  (''Guatemala'', \<lparr>region = ''Central America'', population = 17920000, gdp_per_capita = 5000, tourism_maturity = ''emerging''\<rparr>),
  (''Jamaica'', \<lparr>region = ''Caribbean'', population = 2961000, gdp_per_capita = 5500, tourism_maturity = ''emerging''\<rparr>),
  (''Dominican Republic'', \<lparr>region = ''Caribbean'', population = 10850000, gdp_per_capita = 8000, tourism_maturity = ''emerging''\<rparr>),
  (''Bahamas'', \<lparr>region = ''Caribbean'', population = 393000, gdp_per_capita = 32000, tourism_maturity = ''mature''\<rparr>),
  (''Cuba'', \<lparr>region = ''Caribbean'', population = 11330000, gdp_per_capita = 9000, tourism_maturity = ''emerging''\<rparr>),
  (''Barbados'', \<lparr>region = ''Caribbean'', population = 287000, gdp_per_capita = 18000, tourism_maturity = ''mature''\<rparr>),
  (''China'', \<lparr>region = ''Asia'', population = 1402000000, gdp_per_capita = 12000, tourism_maturity = ''emerging''\<rparr>),
  (''Japan'', \<lparr>region = ''Asia'', population = 125800000, gdp_per_capita = 40000, tourism_maturity = ''mature''\<rparr>),
  (''South Korea'', \<lparr>region = ''Asia'', population = 51270000, gdp_per_capita = 35000, tourism_maturity = ''mature''\<rparr>),
  (''Thailand'', \<lparr>region = ''Asia'', population = 69800000, gdp_per_capita = 8000, tourism_maturity = ''emerging''\<rparr>),
  (''Singapore'', \<lparr>region = ''Asia'', population = 5850000, gdp_per_capita = 65000, tourism_maturity = ''mature''\<rparr>),
  (''Malaysia'', \<lparr>region = ''Asia'', population = 32700000, gdp_per_capita = 12000, tourism_maturity = ''emerging''\<rparr>),
  (''Vietnam'', \<lparr>region = ''Asia'', population = 97340000, gdp_per_capita = 4000, tourism_maturity = ''emerging''\<rparr>),
  (''India'', \<lparr>region = ''Asia'', population = 1380000000, gdp_per_capita = 2000, tourism_maturity = ''emerging''\<rparr>),
  (''Indonesia'', \<lparr>region = ''Asia'', population = 273500000, gdp_per_capita = 4000, tourism_maturity = ''emerging''\<rparr>),
  (''Philippines'', \<lparr>region = ''Asia'', population = 109600000, gdp_per_capita = 3500, tourism_maturity = ''emerging''\<rparr>),
  (''Nepal'', \<lparr>region = ''Asia'', population = 29140000, gdp_per_capita = 1200, tourism_maturity = ''emerging''\<rparr>),
  (''Sri Lanka'', \<lparr>region = ''Asia'', population = 21800000, gdp_per_capita = 4000, tourism_maturity = ''emerging''\<rparr>),
  (''United Arab Emirates'', \<lparr>region = ''Middle East'', population = 9890000, gdp_per_capita = 43000, tourism_maturity = ''emerging''\<rparr>),
  (''Saudi Arabia'', \<lparr>region = ''Middle East'', population = 34800000, gdp_per_capita = 23000, tourism_maturity = ''emerging''\<rparr>),
  (''Qatar'', \<lparr>region = ''Middle East'', population = 2880000, gdp_per_capita = 61000, tourism_maturity = ''emerging''\<rparr>),
  (''Turkey'', \<lparr>region = ''Middle East'', population = 84340000, gdp_per_capita = 9000, tourism_maturity = ''emerging''\<rparr>),
  (''Israel'', \<lparr>region = ''Middle East'', population = 9217000, gdp_per_capita = 43000, tourism_maturity = ''mature''\<rparr>),
  (''Jordan'', \<lparr>region = ''Middle East'', population = 10200000, gdp_per_capita = 4200, tourism_maturity = ''emerging''\<rparr>),
  (''Australia'', \<lparr>region = ''Oceania'', population = 25690000, gdp_per_capita = 55000, tourism_maturity = ''mature''\<rparr>),
  (''New Zealand'', \<lparr>region = ''Oceania'', population = 5080000, gdp_per_capita = 42000, tourism_maturity = ''mature''\<rparr>),
  (''Fiji'', \<lparr>region = ''Pacific Islands'', population = 896000, gdp_per_capita = 6000, tourism_maturity = ''emerging''\<rparr>),
  (''Samoa'', \<lparr>region = ''Pacific Islands'', population = 198000, gdp_per_capita = 4300, tourism_maturity = ''emerging''\<rparr>),
  (''Papua New Guinea'', \<lparr>region = ''Pacific Islands'', population = 8947000, gdp_per_capita = 2500, tourism_maturity = ''emerging''\<rparr>),
  (''South Africa'', \<lparr>region = ''Africa'', population = 59310000, gdp_per_capita = 6000, tourism_maturity = ''emerging''\<rparr>),
  (''Morocco'', \<lparr>region = ''Africa'', population = 36910000, gdp_per_capita = 3500, tourism_maturity = ''emerging''\<rparr>),
  (''Egypt'', \<lparr>region = ''Africa'', population = 102300000, gdp_per_capita = 3000, tourism_maturity = ''emerging''\<rparr>),
  (''Kenya'', \<lparr>region = ''Africa'', population = 53770000, gdp_per_capita = 2000, tourism_maturity = ''emerging''\<rparr>),
  (''Nigeria'', \<lparr>region = ''Sub-Saharan Africa'', population = 206100000, gdp_per_capita = 2200, tourism_maturity = ''emerging''\<rparr>),
  (''Ethiopia'', \<lparr>region = ''Sub-Saharan Africa'', population = 114900000, gdp_per_capita = 900, tourism_maturity = ''emerging''\<rparr>),
  (''Tanzania'', \<lparr>region = ''Sub-Saharan Africa'', population = 59730000, gdp_per_capita = 1100, tourism_maturity = ''emerging''\<rparr>),
  (''Ghana'', \<lparr>region = ''Sub-Saharan Africa'', population = 31070000, gdp_per_capita = 2200, tourism_maturity = ''emerging''\<rparr>),
  (''Brazil'', \<lparr>region = ''South America'', population = 212600000, gdp_per_capita = 9000, tourism_maturity = ''emerging''\<rparr>),
  (''Argentina'', \<lparr>region = ''South America'', population = 45196000, gdp_per_capita = 10000, tourism_maturity = ''emerging''\<rparr>),
  (''Chile'', \<lparr>region = ''South America'', population = 19116000, gdp_per_capita = 15000, tourism_maturity = ''emerging''\<rparr>),
  (''Peru'', \<lparr>region = ''South America'', population = 32972000, gdp_per_capita = 7000, tourism_maturity = ''emerging''\<rparr>),
  (''Colombia'', \<lparr>region = ''South America'', population = 50880000, gdp_per_capita = 6000, tourism_maturity = ''emerging''\<rparr>),
  (''Ecuador'', \<lparr>region = ''South America'', population = 17640000, gdp_per_capita = 6000, tourism_maturity = ''emerging''\<rparr>),
  (''Uruguay'', \<lparr>region = ''South America'', population = 3474000, gdp_per_capita = 17000, tourism_maturity = ''emerging''\<rparr>),
  (''Paraguay'', \<lparr>region = ''South America'', population = 7132000, gdp_per_capita = 5500, tourism_maturity = ''emerging''\<rparr>)]"

definition years :: "int list" where
  "years = [2018, 2019, 2020, 2021, 2022]"

definition months :: "int list" where
  "months = [1 .. 12]"

definition regional_multipliers :: "(string \<times> real) list" where
  "regional_multipliers = [
    (''Europe'', 1.2),
    (''Eastern Europe'', 0.9),
    (''North America'', 1.0),
    (''Central America'', 0.7),
    (''Caribbean'', 0.8),
    (''Asia'', 0.8),
    (''Middle East'', 0.6),
    (''Oceania'', 0.4),
    (''Pacific Islands'', 0.3),
    (''Africa'', 0.3),
    (''Sub-Saharan Africa'', 0.2),
    (''South America'', 0.5)]"

definition seasonal_patterns :: "(string \<times> real list) list" where
  "seasonal_patterns = [
    (''Europe'', [0.6, 0.5, 0.7, 0.8, 1.0, 1.2, 1.5, 1.4, 1.1, 0.9, 0.7, 0.6]),
    (''Eastern Europe'', [0.5, 0.4, 0.6, 0.7, 0.9, 1.1, 1.4, 1.3, 1.0, 0.8, 0.6, 0.5]),
    (''North America'', [0.7, 0.6, 0.8, 0.9, 1.0, 1.1, 1.3, 1.2, 1.0, 0.9, 0.8, 0.7]),
    (''Central America'', [0.8, 0.7, 0.9, 1.0, 1.1, 1.0, 1.2, 1.1, 1.0, 0.9, 0.8, 0.8]),
    (''Caribbean'', [1.0, 1.0, 1.1, 1.1, 1.2, 1.2, 1.3, 1.3, 1.2, 1.1, 1.0, 1.0]),
    (''Asia'', [0.8, 0.7, 0.9, 1.0, 1.1, 1.0, 1.2, 1.1, 1.0, 0.9, 0.8, 0.8]),
    (''Middle East'', [1.0, 0.9, 1.1, 1.0, 0.8, 0.6, 0.5, 0.6, 0.8, 1.0, 1.1, 1.0]),
    (''Oceania'', [1.2, 1.1, 1.0, 0.9, 0.8, 0.7, 0.6, 0.7, 0.8, 0.9, 1.0, 1.1]),
    (''Pacific Islands'', [1.1, 1.1, 1.0, 0.9, 0.8, 0.8, 0.9, 1.0, 1.1, 1.1, 1.1, 1.1]),
    (''Africa'', [0.9, 0.8, 1.0, 1.1, 1.0, 0.9, 0.8, 0.9, 1.0, 1.1, 1.0, 0.9]),
    (''Sub-Saharan Africa'', [0.8, 0.7, 0.9, 1.0, 1.1, 1.0, 0.9, 0.8, 0.9, 1.0, 1.1, 1.0]),
    (''South America'', [0.8, 0.7, 0.9, 1.0, 1.1, 1.0, 0.9, 0.8, 0.9, 1.0, 1.1, 1.0])]"

definition year_multipliers :: "(int \<times> real) list" where
  "year_multipliers = [(2018, 1.0), (2019, 1.05), (2020, 0.3), (2021, 0.6), (2022, 0.85)]"

section \<open>The base arrivals table\<close>

record common_columns =
  Country :: string
  Country_Code :: string
  Region :: string
  Year :: int
  Month :: int

record arrival_row = common_columns +
  Arrivals :: int
  Arrivals_Growth_Rate :: real
  Arrivals_Per_Capita :: real
  Source_Market_Diversity :: real
  Peak_Season_Arrivals :: int
  Off_Season_Arrivals :: int
  Population :: int
  GDP_Per_Capita :: int
  Tourism_Maturity :: string

text \<open>Lines 112--116 and 134: the yearly base of a country, given the regional
  multiplier that was looked up.\<close>

definition scaled_base_arrivals :: "int \<Rightarrow> string \<Rightarrow> real \<Rightarrow> real" where
  "scaled_base_arrivals pop maturity regional_multiplier =
     (let base_arrivals = of_int pop * 0.1;
          base_arrivals =
            (if maturity = ''mature'' then base_arrivals * 1.5
             else if maturity = ''emerging'' then base_arrivals * 0.8
             else base_arrivals)
      in base_arrivals * regional_multiplier)"

definition base_arrivals_of :: "country_info \<Rightarrow> error + real" where
  "base_arrivals_of country_info =
     (case dict_get regional_multipliers (region country_info) of
        Inl e \<Rightarrow> Inl e
      | Inr regional_multiplier \<Rightarrow>
          Inr (scaled_base_arrivals (population country_info)
                 (tourism_maturity country_info) regional_multiplier))"

text \<open>Line 169.\<close>

definition base_monthly_of :: "real \<Rightarrow> real \<Rightarrow> real \<Rightarrow> real" where
  "base_monthly_of base_arrivals seasonal_multiplier year_multiplier =
     base_arrivals / 12 * seasonal_multiplier * year_multiplier"

text \<open>Line 173.\<close>

definition perturbed_arrivals :: "real \<Rightarrow> real \<Rightarrow> real" where
  "perturbed_arrivals base_monthly variation = max 0 (base_monthly * (1 + variation))"

text \<open>Lines 176--181. The division raises when the previous year's multiplier is zero.\<close>

definition growth_rate_of ::
  "'g np_random \<Rightarrow> int \<Rightarrow> real \<Rightarrow> 'g \<Rightarrow> error + (real \<times> 'g)" where
  "growth_rate_of R year year_multiplier g =
     (if year > 2018 then
        (case dict_get year_multipliers (year - 1) of
           Inl e \<Rightarrow> Inl e
         | Inr previous \<Rightarrow>
             if previous = 0 then Inl ZeroDivisionError
             else
               (let growth_rate = (year_multiplier - previous) / previous * 100;
                    (noise, g') = random_normal R 0 5 g
                in Inr (growth_rate + noise, g')))
      else
        (let (growth_rate, g') = random_normal R 2 3 g in Inr (growth_rate, g')))"

text \<open>Lines 190--195.\<close>

definition peak_months :: "int list" where
  "peak_months = [6, 7, 8, 12]"

definition season_split :: "int \<Rightarrow> real \<Rightarrow> real \<times> real" where
  "season_split month arrivals =
     (if month \<in> set peak_months then (arrivals * 1.5, arrivals * 0.6)
      else (arrivals * 0.8, arrivals * 1.2))"

text \<open>The body of the innermost loop, lines 166--216: one record, and the generator
  state after its five draws.\<close>

definition monthly_record ::
  "'g np_random \<Rightarrow> string \<Rightarrow> country_info \<Rightarrow> real \<Rightarrow> int \<Rightarrow> real \<Rightarrow> int \<Rightarrow> 'g
     \<Rightarrow> error + (arrival_row \<times> 'g)" where
  "monthly_record R country country_info base_arrivals year year_multiplier month g =
     (case dict_get seasonal_patterns (region country_info) of
        Inl e \<Rightarrow> Inl e
      | Inr pattern \<Rightarrow>
     (case list_get pattern (month - 1) of
        Inl e \<Rightarrow> Inl e
      | Inr seasonal_multiplier \<Rightarrow>
     (let base_monthly = base_monthly_of base_arrivals seasonal_multiplier year_multiplier;
          (variation, g1) = random_normal R 0 0.1 g;
          arrivals = perturbed_arrivals base_monthly variation
      in
     (case growth_rate_of R year year_multiplier g1 of
        Inl e \<Rightarrow> Inl e
      | Inr (growth_rate, g2) \<Rightarrow>
     (if population country_info = 0 then Inl ZeroDivisionError
      else
     (let arrivals_per_capita = arrivals / of_int (population country_info);
          (source_diversity, g3) = random_uniform R 0.4 0.9 g2;
          (peak_arrivals, off_peak_arrivals) = season_split month arrivals;
          (peak_noise, g4) = random_uniform R 0.9 1.1 g3;
          peak_arrivals = peak_arrivals * peak_noise;
          (off_peak_noise, g5) = random_uniform R 0.9 1.1 g4;
          off_peak_arrivals = off_peak_arrivals * off_peak_noise
      in Inr (\<lparr>Country = country,
                Country_Code = upper (take 3 country),
                Region = region country_info,
                Year = year,
                Month = month,
                Arrivals = py_int arrivals,
                Arrivals_Growth_Rate = py_round growth_rate 1,
                Arrivals_Per_Capita = py_round arrivals_per_capita 6,
                Source_Market_Diversity = py_round source_diversity 2,
                Peak_Season_Arrivals = py_int peak_arrivals,
                Off_Season_Arrivals = py_int off_peak_arrivals,
                Population = population country_info,
                GDP_Per_Capita = gdp_per_capita country_info,
                Tourism_Maturity = tourism_maturity country_info\<rparr>, g5)))))))"

text \<open>The three nested loops of \<open>generate_tourism_dataset\<close>; \<open>data\<close> is the list the
  source appends to, an exception leaves every loop at once.\<close>

fun month_loop ::
  "'g np_random \<Rightarrow> string \<Rightarrow> country_info \<Rightarrow> real \<Rightarrow> int \<Rightarrow> real \<Rightarrow> int list
     \<Rightarrow> arrival_row list \<Rightarrow> 'g \<Rightarrow> error + (arrival_row list \<times> 'g)" where
  "month_loop R country country_info base_arrivals year year_multiplier [] data g =
     Inr (data, g)"
| "month_loop R country country_info base_arrivals year year_multiplier (month # rest) data g =
     (case monthly_record R country country_info base_arrivals year year_multiplier month g of
        Inl e \<Rightarrow> Inl e
      | Inr (row, g') \<Rightarrow>
          month_loop R country country_info base_arrivals year year_multiplier rest
            (data @ [row]) g')"

fun year_loop ::
  "'g np_random \<Rightarrow> string \<Rightarrow> country_info \<Rightarrow> real \<Rightarrow> int list
     \<Rightarrow> arrival_row list \<Rightarrow> 'g \<Rightarrow> error + (arrival_row list \<times> 'g)" where
  "year_loop R country country_info base_arrivals [] data g = Inr (data, g)"
| "year_loop R country country_info base_arrivals (year # rest) data g =
     (case dict_get year_multipliers year of
        Inl e \<Rightarrow> Inl e
      | Inr year_multiplier \<Rightarrow>
     (case month_loop R country country_info base_arrivals year year_multiplier months data g of
        Inl e \<Rightarrow> Inl e
      | Inr (data', g') \<Rightarrow> year_loop R country country_info base_arrivals rest data' g'))"

fun country_loop ::
  "'g np_random \<Rightarrow> (string \<times> country_info) list
     \<Rightarrow> arrival_row list \<Rightarrow> 'g \<Rightarrow> error + (arrival_row list \<times> 'g)" where
  "country_loop R [] data g = Inr (data, g)"
| "country_loop R ((country, country_info) # rest) data g =
     (case base_arrivals_of country_info of
        Inl e \<Rightarrow> Inl e
      | Inr base_arrivals \<Rightarrow>
     (case year_loop R country country_info base_arrivals years data g of
        Inl e \<Rightarrow> Inl e
      | Inr (data', g') \<Rightarrow> country_loop R rest data' g'))"

definition generate_tourism_dataset ::
  "'g np_random \<Rightarrow> 'g \<Rightarrow> error + (arrival_row list \<times> 'g)" where
  "generate_tourism_dataset R g = country_loop R countries_data [] g"

section \<open>The derived tables\<close>

text \<open>Each derived generator walks the rows of the base table in order
  (\<open>iterrows\<close>), appends one record per row and draws from the same global source.\<close>

record hotel_row = common_columns +
  Hotel_Bookings :: int
  Average_Daily_Rate :: real
  Occupancy_Rate :: real
  Revenue :: real
  Tourism_Maturity :: string

definition hotel_bookings_row :: "'g np_random \<Rightarrow> arrival_row \<Rightarrow> 'g \<Rightarrow> hotel_row \<times> 'g" where
  "hotel_bookings_row R row g =
     (let (booking_rate, g1) = random_uniform R 0.6 0.9 g;
          bookings = py_int (of_int (Arrivals row) * booking_rate);
          base_adr = of_int (GDP_Per_Capita row) * 0.1;
          base_adr =
            (if arrival_row.Tourism_Maturity row = ''mature'' then base_adr * 1.2
             else if arrival_row.Tourism_Maturity row = ''emerging'' then base_adr * 0.8
             else base_adr);
          (seasonal, g2) =
            (if Month row \<in> set peak_months then random_uniform R 1.3 1.8 g1
             else random_uniform R 0.7 1.2 g1);
          adr = base_adr * seasonal;
          (occupancy, g3) = random_uniform R 0.4 0.95 g2;
          revenue = of_int bookings * adr * occupancy
      in (\<lparr>Country = Country row,
            Country_Code = Country_Code row,
            Region = Region row,
            Year = Year row,
            Month = Month row,
            Hotel_Bookings = bookings,
            Average_Daily_Rate = py_round adr 2,
            Occupancy_Rate = py_round occupancy 3,
            Revenue = py_round revenue 2,
            Tourism_Maturity = arrival_row.Tourism_Maturity row\<rparr>, g3))"

fun hotel_bookings_loop ::
  "'g np_random \<Rightarrow> arrival_row list \<Rightarrow> hotel_row list \<Rightarrow> 'g \<Rightarrow> hotel_row list \<times> 'g" where
  "hotel_bookings_loop R [] data g = (data, g)"
| "hotel_bookings_loop R (row # rest) data g =
     (let (new_row, g') = hotel_bookings_row R row g
      in hotel_bookings_loop R rest (data @ [new_row]) g')"

definition generate_hotel_bookings_dataset ::
  "'g np_random \<Rightarrow> arrival_row list \<Rightarrow> 'g \<Rightarrow> hotel_row list \<times> 'g" where
  "generate_hotel_bookings_dataset R tourism_df g = hotel_bookings_loop R tourism_df [] g"

record flight_row = common_columns +
  Flight_Capacity :: int
  Passengers :: int
  Load_Factor :: real
  Average_Ticket_Price :: real
  Revenue :: real
  Tourism_Maturity :: string

definition flight_data_row :: "'g np_random \<Rightarrow> arrival_row \<Rightarrow> 'g \<Rightarrow> flight_row \<times> 'g" where
  "flight_data_row R row g =
     (let (capacity_factor, g1) = random_uniform R 1.2 1.8 g;
          capacity = py_int (of_int (Arrivals row) * capacity_factor);
          (load_factor, g2) = random_uniform R 0.6 0.95 g1;
          passengers = py_int (of_int capacity * load_factor);
          base_ticket_price = of_int (GDP_Per_Capita row) * 0.05;
          base_ticket_price =
            (if Region row = ''Europe'' then base_ticket_price * 0.8
             else if Region row \<in> set [''Asia'', ''Oceania''] then base_ticket_price * 1.5
             else base_ticket_price);
          (seasonal, g3) =
            (if Month row \<in> set peak_months then random_uniform R 1.2 1.6 g2
             else random_uniform R 0.8 1.1 g2);
          ticket_price = base_ticket_price * seasonal;
          revenue = of_int passengers * ticket_price
      in (\<lparr>Country = Country row,
            Country_Code = Country_Code row,
            Region = Region row,
            Year = Year row,
            Month = Month row,
            Flight_Capacity = capacity,
            Passengers = passengers,
            Load_Factor = py_round load_factor 3,
            Average_Ticket_Price = py_round ticket_price 2,
            Revenue = py_round revenue 2,
            Tourism_Maturity = arrival_row.Tourism_Maturity row\<rparr>, g3))"

fun flight_data_loop ::
  "'g np_random \<Rightarrow> arrival_row list \<Rightarrow> flight_row list \<Rightarrow> 'g \<Rightarrow> flight_row list \<times> 'g" where
  "flight_data_loop R [] data g = (data, g)"
| "flight_data_loop R (row # rest) data g =
     (let (new_row, g') = flight_data_row R row g
      in flight_data_loop R rest (data @ [new_row]) g')"

definition generate_flight_data_dataset ::
  "'g np_random \<Rightarrow> arrival_row list \<Rightarrow> 'g \<Rightarrow> flight_row list \<times> 'g" where
  "generate_flight_data_dataset R tourism_df g = flight_data_loop R tourism_df [] g"

record revenue_row = common_columns +
  Total_Revenue :: real
  Accommodation_Revenue :: real
  Transportation_Revenue :: real
  Food_Beverage_Revenue :: real
  Activities_Revenue :: real
  Revenue_Per_Tourist :: real
  Tourism_Maturity :: string

definition tourism_revenue_row :: "'g np_random \<Rightarrow> arrival_row \<Rightarrow> 'g \<Rightarrow> revenue_row \<times> 'g" where
  "tourism_revenue_row R row g =
     (let base_revenue_per_tourist = of_int (GDP_Per_Capita row) * 0.3;
          base_revenue_per_tourist =
            (if arrival_row.Tourism_Maturity row = ''mature'' then base_revenue_per_tourist * 1.3
             else if arrival_row.Tourism_Maturity row = ''emerging''
               then base_revenue_per_tourist * 0.7
             else base_revenue_per_tourist);
          (seasonal, g1) =
            (if Month row \<in> set peak_months then random_uniform R 1.2 1.5 g
             else random_uniform R 0.8 1.1 g);
          revenue_per_tourist = base_revenue_per_tourist * seasonal;
          total_revenue = of_int (Arrivals row) * revenue_per_tourist;
          (accommodation_share, g2) = random_uniform R 0.3 0.5 g1;
          (transportation_share, g3) = random_uniform R 0.2 0.3 g2;
          (food_beverage_share, g4) = random_uniform R 0.15 0.25 g3;
          (activities_share, g5) = random_uniform R 0.1 0.2 g4
      in (\<lparr>Country = Country row,
            Country_Code = Country_Code row,
            Region = Region row,
            Year = Year row,
            Month = Month row,
            Total_Revenue = py_round total_revenue 2,
            Accommodation_Revenue = py_round (total_revenue * accommodation_share) 2,
            Transportation_Revenue = py_round (total_revenue * transportation_share) 2,
            Food_Beverage_Revenue = py_round (total_revenue * food_beverage_share) 2,
            Activities_Revenue = py_round (total_revenue * activities_share) 2,
            Revenue_Per_Tourist = py_round revenue_per_tourist 2,
            Tourism_Maturity = arrival_row.Tourism_Maturity row\<rparr>, g5))"

fun tourism_revenue_loop ::
  "'g np_random \<Rightarrow> arrival_row list \<Rightarrow> revenue_row list \<Rightarrow> 'g \<Rightarrow> revenue_row list \<times> 'g" where
  "tourism_revenue_loop R [] data g = (data, g)"
| "tourism_revenue_loop R (row # rest) data g =
     (let (new_row, g') = tourism_revenue_row R row g
      in tourism_revenue_loop R rest (data @ [new_row]) g')"

definition generate_tourism_revenue_dataset ::
  "'g np_random \<Rightarrow> arrival_row list \<Rightarrow> 'g \<Rightarrow> revenue_row list \<times> 'g" where
  "generate_tourism_revenue_dataset R tourism_df g = tourism_revenue_loop R tourism_df [] g"

section \<open>The generator script\<close>

record datasets =
  tourism_df :: "arrival_row list"
  hotel_df :: "hotel_row list"
  flight_df :: "flight_row list"
  revenue_df :: "revenue_row list"



section \<open>The compatibility verifier\<close>

text \<open>
  The relational store is SQLite, outside the repository. A connection is modelled by
  what each of the verifier's fixed statements does on it: \<open>Inl msg\<close> when the body
  of the \<open>try\<close> raises with message \<open>msg\<close>, \<open>Inr v\<close> when it runs, \<open>v\<close> being the
  number the check prints (\<open>None\<close> for SQL \<open>NULL\<close>).
\<close>

datatype query =
    Basic_Select
  | Year_Range_Query
  | Peak_Off_Season_Analysis
  | Growth_Rate_Calculation
  | Regional_Analysis
  | Solution_1
  | Solution_3
  | Solution_4
  | Quality_Missing_Values
  | Quality_Year_Range
  | Quality_Country_Distribution

type_synonym connection = "query \<Rightarrow> string + int option"

datatype line =
    Input_Missing
  | Database_Created
  | Check_Passed query "int option"
  | Check_Failed query string
  | All_Basic_Passed
  | Some_Basic_Failed
  | Quality_Line query "int option"
  | Script_Created
  | Dataset_Compatible

datatype outcome = No_Input | Halted | Uncaught string | Completed

text \<open>\<open>test_sql_compatibility\<close>: five \<open>try\<close> blocks, each returning \<open>False\<close> from
  its handler.\<close>

definition test_sql_compatibility :: "connection \<Rightarrow> line list \<Rightarrow> bool \<times> line list" where
  "test_sql_compatibility conn out =
     (case conn Basic_Select of
        Inl e \<Rightarrow> (False, out @ [Check_Failed Basic_Select e])
      | Inr v1 \<Rightarrow>
     (let out = out @ [Check_Passed Basic_Select v1] in
      case conn Year_Range_Query of
        Inl e \<Rightarrow> (False, out @ [Check_Failed Year_Range_Query e])
      | Inr v2 \<Rightarrow>
     (let out = out @ [Check_Passed Year_Range_Query v2] in
      case conn Peak_Off_Season_Analysis of
        Inl e \<Rightarrow> (False, out @ [Check_Failed Peak_Off_Season_Analysis e])
      | Inr v3 \<Rightarrow>
     (let out = out @ [Check_Passed Peak_Off_Season_Analysis v3] in
      case conn Growth_Rate_Calculation of
        Inl e \<Rightarrow> (False, out @ [Check_Failed Growth_Rate_Calculation e])
      | Inr v4 \<Rightarrow>
     (let out = out @ [Check_Passed Growth_Rate_Calculation v4] in
      case conn Regional_Analysis of
        Inl e \<Rightarrow> (False, out @ [Check_Failed Regional_Analysis e])
      | Inr v5 \<Rightarrow> (True, out @ [Check_Passed Regional_Analysis v5]))))))"

text \<open>\<open>test_specific_sql_solutions\<close>: three \<open>try\<close> blocks whose handlers only
  print.\<close>

definition try_solution :: "connection \<Rightarrow> query \<Rightarrow> line list \<Rightarrow> line list" where
  "try_solution conn q out =
     (case conn q of
        Inl e \<Rightarrow> out @ [Check_Failed q e]
      | Inr v \<Rightarrow> out @ [Check_Passed q v])"

definition test_specific_sql_solutions :: "connection \<Rightarrow> line list \<Rightarrow> line list" where
  "test_specific_sql_solutions conn out =
     (let out = try_solution conn Solution_1 out;
          out = try_solution conn Solution_3 out;
          out = try_solution conn Solution_4 out
      in out)"

text \<open>\<open>analyze_data_quality\<close>: three statements outside any \<open>try\<close>; an exception
  leaves the function.\<close>

definition analyze_data_quality :: "connection \<Rightarrow> line list \<Rightarrow> string \<times> line list + line list" where
  "analyze_data_quality conn out =
     (case conn Quality_Missing_Values of
        Inl e \<Rightarrow> Inl (e, out)
      | Inr v1 \<Rightarrow>
     (let out = out @ [Quality_Line Quality_Missing_Values v1] in
      case conn Quality_Year_Range of
        Inl e \<Rightarrow> Inl (e, out)
      | Inr v2 \<Rightarrow>
     (let out = out @ [Quality_Line Quality_Year_Range v2] in
      case conn Quality_Country_Distribution of
        Inl e \<Rightarrow> Inl (e, out)
      | Inr v3 \<Rightarrow> Inr (out @ [Quality_Line Quality_Country_Distribution v3]))))"

text \<open>\<open>main\<close> of the verifier; \<open>file_exists\<close> is the result of \<open>os.path.exists\<close>.\<close>

definition verifier_main :: "bool \<Rightarrow> connection \<Rightarrow> outcome \<times> line list" where
  "verifier_main file_exists conn =
     (if \<not> file_exists then (No_Input, [Input_Missing])
      else
        (let (passed, out) = test_sql_compatibility conn [Database_Created] in
         if passed then
           (let out = out @ [All_Basic_Passed];
                out = test_specific_sql_solutions conn out
            in case analyze_data_quality conn out of
                 Inl (e, out) \<Rightarrow> (Uncaught e, out)
               | Inr out \<Rightarrow> (Completed, out @ [Script_Created, Dataset_Compatible]))
         else (Halted, out @ [Some_Basic_Failed])))"

section \<open>Notions used in the statements\<close>

text \<open>The key of a row of any of the four tables.\<close>

definition row_key :: "'a common_columns_scheme \<Rightarrow> string \<times> int \<times> int" where
  "row_key r = (Country r, Year r, Month r)"

text \<open>The checks a transcript reports, passed or failed, in order.\<close>

fun checks_run :: "line list \<Rightarrow> query list" where
  "checks_run [] = []"
| "checks_run (Check_Passed q v # rest) = q # checks_run rest"
| "checks_run (Check_Failed q e # rest) = q # checks_run rest"
| "checks_run (l # rest) = checks_run rest"

definition basic_checks :: "query list" where
  "basic_checks =
     [Basic_Select, Year_Range_Query, Peak_Off_Season_Analysis, Growth_Rate_Calculation,
      Regional_Analysis]"

definition specific_checks :: "query list" where
  "specific_checks = [Solution_1, Solution_3, Solution_4]"

definition runs :: "connection \<Rightarrow> query \<Rightarrow> bool" where
  "runs conn q = (case conn q of Inl e \<Rightarrow> False | Inr v \<Rightarrow> True)"

text \<open>The line a check prints for its statement.\<close>

definition report :: "connection \<Rightarrow> query \<Rightarrow> line" where
  "report conn q = (case conn q of Inl e \<Rightarrow> Check_Failed q e | Inr v \<Rightarrow> Check_Passed q v)"

text \<open>A battery in which every handler returns: it stops after the first statement that
  raises. \<open>test_sql_compatibility\<close> is shown below to be this battery on
  \<open>basic_checks\<close>.\<close>

fun gated_checks :: "connection \<Rightarrow> query list \<Rightarrow> line list \<Rightarrow> bool \<times> line list" where
  "gated_checks conn [] out = (True, out)"
| "gated_checks conn (q # rest) out =
     (case conn q of
        Inl e \<Rightarrow> (False, out @ [Check_Failed q e])
      | Inr v \<Rightarrow> gated_checks conn rest (out @ [Check_Passed q v]))"

text \<open>A reference entry with which no lookup and no division of the generator can fail.\<close>

definition country_ok :: "country_info \<Rightarrow> bool" where
  "country_ok info =
     (0 < population info \<and>
      (case dict_get regional_multipliers (region info) of
         Inl e \<Rightarrow> False | Inr v \<Rightarrow> True) \<and>
      (case dict_get seasonal_patterns (region info) of
         Inl e \<Rightarrow> False | Inr pattern \<Rightarrow> length pattern = 12))"

text \<open>\<open>produced_by R ((country, info), year, month) row\<close>: the row is what the loop body
  returns for that country, year and month at some state of the source.\<close>

definition produced_by ::
  "'g np_random \<Rightarrow> (string \<times> country_info) \<times> int \<times> int \<Rightarrow> arrival_row \<Rightarrow> bool" where
  "produced_by R job row =
     (\<exists>base_arrivals year_multiplier g g'.
        base_arrivals_of (snd (fst job)) = Inr base_arrivals \<and>
        dict_get year_multipliers (fst (snd job)) = Inr year_multiplier \<and>
        monthly_record R (fst (fst job)) (snd (fst job)) base_arrivals (fst (snd job))
          year_multiplier (snd (snd job)) g = Inr (row, g'))"

text \<open>A source for concrete runs: every standard normal variate it hands out is \<open>z\<close>,
  every unit uniform variate is \<open>u\<close>; \<open>normal(loc, scale)\<close> and \<open>uniform(low, high)\<close>
  scale and shift them as NumPy does.\<close>

definition constant_source :: "real \<Rightarrow> real \<Rightarrow> unit np_random" where
  "constant_source z u =
     \<lparr>random_seed = (\<lambda>n. ()),
      random_normal = (\<lambda>loc scale g. (loc + scale * z, g)),
      random_uniform = (\<lambda>low high g. (low + (high - low) * u, g))\<rparr>"

text \<open>Connections for concrete runs: an empty table, on which every statement runs
  (\<open>COUNT(*)\<close> is 0, \<open>MAX(Year)\<close> is \<open>NULL\<close>, every grouped result has no row), and a
  table of 3900 rows that lacks the \<open>Year\<close> column.\<close>

definition empty_table_connection :: connection where
  "empty_table_connection q =
     (if q = Basic_Select then Inr (Some 0)
      else if q = Year_Range_Query \<or> q = Quality_Year_Range then Inr None
      else Inr (Some 0))"

definition no_year_connection :: connection where
  "no_year_connection q =
     (if q = Basic_Select then Inr (Some 3900)
      else if q = Peak_Off_Season_Analysis \<or> q = Solution_3 then Inr (Some 5)
      else if q = Regional_Analysis then Inr (Some 12)
      else if q = Quality_Missing_Values then Inr (Some 3900)
      else if q = Quality_Country_Distribution then Inr (Some 65)
      else Inl ''no such column: Year'')"

text \<open>One iteration of the innermost loop seen from outside the three loops: the two
  lookups the outer loops made for it, then the loop body.\<close>

definition job_record ::
  "'g np_random \<Rightarrow> (string \<times> country_info) \<times> int \<times> int \<Rightarrow> 'g
     \<Rightarrow> error + (arrival_row \<times> 'g)" where
  "job_record R job g =
     (case base_arrivals_of (snd (fst job)) of
        Inl e \<Rightarrow> Inl e
      | Inr base_arrivals \<Rightarrow>
     (case dict_get year_multipliers (fst (snd job)) of
        Inl e \<Rightarrow> Inl e
      | Inr year_multiplier \<Rightarrow>
          monthly_record R (fst (fst job)) (snd (fst job)) base_arrivals (fst (snd job))
            year_multiplier (snd (snd job)) g))"

text \<open>The records of a list of iterations run one after the other on one source, each
  starting in the state the one before left, and the state after the last.\<close>

fun run_jobs ::
  "'g np_random \<Rightarrow> ((string \<times> country_info) \<times> int \<times> int) list \<Rightarrow> 'g
     \<Rightarrow> error + (arrival_row list \<times> 'g)" where
  "run_jobs R [] g = Inr ([], g)"
| "run_jobs R (job # rest) g =
     (case job_record R job g of
        Inl e \<Rightarrow> Inl e
      | Inr (row, g1) \<Rightarrow>
     (case run_jobs R rest g1 of
        Inl e \<Rightarrow> Inl e
      | Inr (rows, g2) \<Rightarrow> Inr (row # rows, g2)))"

text \<open>The state of the source at the start of each of those iterations.\<close>

fun states_before ::
  "'g np_random \<Rightarrow> ((string \<times> country_info) \<times> int \<times> int) list \<Rightarrow> 'g \<Rightarrow> 'g list" where
  "states_before R [] g = []"
| "states_before R (job # rest) g =
     g # (case job_record R job g of
            Inl e \<Rightarrow> []
          | Inr (row, g1) \<Rightarrow> states_before R rest g1)"



section \<open>The generator: every lookup succeeds and every row comes from the loop body\<close>

lemma countries_ok: "list_all (\<lambda>(c, info). country_ok info) countries_data"
  by (simp add: countries_data_def country_ok_def dict_get_def regional_multipliers_def seasonal_patterns_def)

lemma names_distinct: "distinct (map fst countries_data)"
  by (simp add: countries_data_def)

lemma months_eq: "months = [1,2,3,4,5,6,7,8,9,10,11,12]"
  by (simp add: months_def upto.simps)

lemma growth_ok:
  assumes "y \<in> set years"
  shows "\<exists>gr g'. growth_rate_of R y ym g = Inr (gr, g')"
  using assms
  by (auto simp: years_def growth_rate_of_def dict_get_def year_multipliers_def Let_def case_prod_beta)

lemma monthly_record_ok:
  assumes "country_ok info" "y \<in> set years" "m \<in> set months"
  shows "\<exists>r g'. monthly_record R c info ba y ym m g = Inr (r, g')"
proof -
  from assms(1) obtain pattern where p: "dict_get seasonal_patterns (region info) = Inr pattern"
    "length pattern = 12" and pop: "population info \<noteq> 0"
    by (auto simp: country_ok_def split: sum.splits)
  from assms(3) have m: "1 \<le> m" "m \<le> 12" by (auto simp: months_def)
  then obtain s where s: "list_get pattern (m - 1) = Inr s"
    using p(2) by (auto simp: list_get_def)
  obtain gr g2 where gr: "growth_rate_of R y ym (snd (random_normal R 0 0.1 g)) = Inr (gr, g2)"
    using growth_ok[OF assms(2), of R ym "snd (random_normal R 0 0.1 g)"] by blast
  show ?thesis
    using p(1) s gr pop by (simp add: monthly_record_def Let_def case_prod_beta)
qed

lemma base_arrivals_ok: "country_ok info \<Longrightarrow> \<exists>ba. base_arrivals_of info = Inr ba"
  by (auto simp: country_ok_def base_arrivals_of_def split: sum.splits)

lemma year_multiplier_ok:
  assumes "y \<in> set years"
  shows "\<exists>ym. dict_get year_multipliers y = Inr ym"
proof -
  have "y \<in> fst ` set year_multipliers"
    using assms by (auto simp: years_def year_multipliers_def)
  then obtain ym where "map_of year_multipliers y = Some ym"
    by (metis map_of_eq_None_iff option.exhaust)
  then show ?thesis by (simp add: dict_get_def)
qed

lemma month_loop_ok:
  assumes "country_ok info" "y \<in> set years" "set ms \<subseteq> set months"
    and "base_arrivals_of info = Inr ba" "dict_get year_multipliers y = Inr ym"
  shows "\<exists>rows g'. month_loop R c info ba y ym ms data g = Inr (data @ rows, g') \<and>
           list_all2 (\<lambda>m. produced_by R ((c, info), (y, m))) ms rows"
  using assms(3)
proof (induction ms arbitrary: data g)
  case Nil
  then show ?case by simp
next
  case (Cons m ms)
  obtain r g1 where r: "monthly_record R c info ba y ym m g = Inr (r, g1)"
    using monthly_record_ok[OF assms(1,2), of m R c ba ym g] Cons.prems by auto
  have pr: "produced_by R ((c, info), (y, m)) r"
    unfolding produced_by_def using r assms(4,5) by auto
  obtain rows g' where rows:
    "month_loop R c info ba y ym ms (data @ [r]) g1 = Inr ((data @ [r]) @ rows, g')"
    "list_all2 (\<lambda>m. produced_by R ((c, info), (y, m))) ms rows"
    using Cons.IH[of "data @ [r]" g1] Cons.prems by auto
  have "month_loop R c info ba y ym (m # ms) data g = Inr (data @ (r # rows), g')"
    using r rows(1) by simp
  moreover have "list_all2 (\<lambda>m. produced_by R ((c, info), (y, m))) (m # ms) (r # rows)"
    using pr rows(2) by simp
  ultimately show ?case by blast
qed

lemma year_loop_ok:
  assumes "country_ok info" "set ys \<subseteq> set years" "base_arrivals_of info = Inr ba"
  shows "\<exists>rows g'. year_loop R c info ba ys data g = Inr (data @ rows, g') \<and>
           list_all2 (\<lambda>job. produced_by R ((c, info), job)) (List.product ys months) rows"
  using assms(2)
proof (induction ys arbitrary: data g)
  case Nil
  then show ?case by simp
next
  case (Cons y ys)
  have y: "y \<in> set years" using Cons.prems by simp
  obtain ym where ym: "dict_get year_multipliers y = Inr ym"
    using year_multiplier_ok[OF y] by auto
  obtain rows1 g1 where rows1:
    "month_loop R c info ba y ym months data g = Inr (data @ rows1, g1)"
    "list_all2 (\<lambda>m. produced_by R ((c, info), (y, m))) months rows1"
    using month_loop_ok[OF assms(1) y _ assms(3) ym, of months R c data g] by auto
  obtain rows2 g' where rows2:
    "year_loop R c info ba ys (data @ rows1) g1 = Inr ((data @ rows1) @ rows2, g')"
    "list_all2 (\<lambda>job. produced_by R ((c, info), job)) (List.product ys months) rows2"
    using Cons.IH[of "data @ rows1" g1] Cons.prems by auto
  have run: "year_loop R c info ba (y # ys) data g = Inr (data @ (rows1 @ rows2), g')"
    using ym rows1(1) rows2(1) by simp
  have "list_all2 (\<lambda>job. produced_by R ((c, info), job)) (map (Pair y) months) rows1"
    using rows1(2) by (simp add: list_all2_map1)
  then have "list_all2 (\<lambda>job. produced_by R ((c, info), job))
      (List.product (y # ys) months) (rows1 @ rows2)"
    using rows2(2) by (simp add: list_all2_appendI)
  with run show ?case by blast
qed

lemma country_loop_ok:
  assumes "list_all (\<lambda>(c, info). country_ok info) cs"
  shows "\<exists>rows g'. country_loop R cs data g = Inr (data @ rows, g') \<and>
           list_all2 (produced_by R) (List.product cs (List.product years months)) rows"
  using assms
proof (induction cs arbitrary: data g)
  case Nil
  then show ?case by simp
next
  case (Cons p cs)
  obtain c info where p: "p = (c, info)" by (cases p)
  have ok: "country_ok info" using Cons.prems p by simp
  obtain ba where ba: "base_arrivals_of info = Inr ba"
    using base_arrivals_ok[OF ok] by auto
  obtain rows1 g1 where rows1:
    "year_loop R c info ba years data g = Inr (data @ rows1, g1)"
    "list_all2 (\<lambda>job. produced_by R ((c, info), job)) (List.product years months) rows1"
    using year_loop_ok[OF ok _ ba, of years R c data g] by auto
  obtain rows2 g' where rows2:
    "country_loop R cs (data @ rows1) g1 = Inr ((data @ rows1) @ rows2, g')"
    "list_all2 (produced_by R) (List.product cs (List.product years months)) rows2"
    using Cons.IH[of "data @ rows1" g1] Cons.prems by auto
  have run: "country_loop R (p # cs) data g = Inr (data @ (rows1 @ rows2), g')"
    using p ba rows1(1) rows2(1) by simp
  have "list_all2 (produced_by R) (map (Pair (c, info)) (List.product years months)) rows1"
    using rows1(2) by (simp add: list_all2_map1)
  then have "list_all2 (produced_by R) (List.product (p # cs) (List.product years months))
      (rows1 @ rows2)"
    using rows2(2) p by (simp add: list_all2_appendI)
  with run show ?case by blast
qed

lemma generate_structure:
  "\<exists>T g'. generate_tourism_dataset R g = Inr (T, g') \<and>
     list_all2 (produced_by R) (List.product countries_data (List.product years months)) T"
  using country_loop_ok[OF countries_ok, of R "[]" g]
  by (simp add: generate_tourism_dataset_def)


lemma produced_by_row:
  assumes "produced_by R ((c, info), (y, m)) r"
  shows "\<exists>rm pattern s ym g gr g2.
    dict_get regional_multipliers (region info) = Inr rm \<and>
    dict_get seasonal_patterns (region info) = Inr pattern \<and>
    list_get pattern (m - 1) = Inr s \<and>
    dict_get year_multipliers y = Inr ym \<and>
    growth_rate_of R y ym (snd (random_normal R 0 0.1 g)) = Inr (gr, g2) \<and>
    population info \<noteq> 0 \<and>
    Country r = c \<and> Country_Code r = upper (take 3 c) \<and> Region r = region info \<and>
    Year r = y \<and> Month r = m \<and>
    Arrivals r = py_int (perturbed_arrivals (base_monthly_of
        (scaled_base_arrivals (population info) (tourism_maturity info) rm) s ym)
        (fst (random_normal R 0 0.1 g))) \<and>
    Arrivals_Growth_Rate r = py_round gr 1 \<and>
    Arrivals_Per_Capita r = py_round (perturbed_arrivals (base_monthly_of
        (scaled_base_arrivals (population info) (tourism_maturity info) rm) s ym)
        (fst (random_normal R 0 0.1 g)) / of_int (population info)) 6 \<and>
    Population r = population info \<and> GDP_Per_Capita r = gdp_per_capita info \<and>
    arrival_row.Tourism_Maturity r = tourism_maturity info"
proof -
  from assms obtain ba ym g g' where
    ba: "base_arrivals_of info = Inr ba" and ym: "dict_get year_multipliers y = Inr ym"
    and mr: "monthly_record R c info ba y ym m g = Inr (r, g')"
    unfolding produced_by_def by auto
  from ba obtain rm where rm: "dict_get regional_multipliers (region info) = Inr rm"
    and ba_eq: "ba = scaled_base_arrivals (population info) (tourism_maturity info) rm"
    by (auto simp: base_arrivals_of_def split: sum.splits)
  from mr obtain pattern where pat: "dict_get seasonal_patterns (region info) = Inr pattern"
    by (auto simp: monthly_record_def split: sum.splits)
  from mr pat obtain s where s: "list_get pattern (m - 1) = Inr s"
    by (auto simp: monthly_record_def split: sum.splits)
  from mr pat s obtain gr g2 where
    gr: "growth_rate_of R y ym (snd (random_normal R 0 0.1 g)) = Inr (gr, g2)"
    by (auto simp: monthly_record_def Let_def case_prod_beta split: sum.splits)
  from mr pat s gr have pop: "population info \<noteq> 0"
    by (auto simp: monthly_record_def Let_def case_prod_beta split: if_splits)
  show ?thesis
    apply (rule exI[of _ rm], rule exI[of _ pattern], rule exI[of _ s], rule exI[of _ ym],
        rule exI[of _ g], rule exI[of _ gr], rule exI[of _ g2])
    using mr pat s gr pop rm ym ba_eq
    by (auto simp: monthly_record_def Let_def case_prod_beta)
qed

section \<open>The three loops as one run over countries, years and months\<close>

lemma run_jobs_append:
  assumes "run_jobs R xs g = Inr (r1, g1)" "run_jobs R ys g1 = Inr (r2, g2)"
  shows "run_jobs R (xs @ ys) g = Inr (r1 @ r2, g2)"
  using assms
  by (induction xs arbitrary: g r1) (auto split: sum.splits prod.splits)

lemma month_loop_run:
  assumes "country_ok info" "y \<in> set years" "set ms \<subseteq> set months"
    and "base_arrivals_of info = Inr ba" "dict_get year_multipliers y = Inr ym"
  shows "\<exists>rows g'. month_loop R c info ba y ym ms data g = Inr (data @ rows, g') \<and>
           run_jobs R (map (\<lambda>m. ((c, info), (y, m))) ms) g = Inr (rows, g')"
  using assms(3)
proof (induction ms arbitrary: data g)
  case Nil
  then show ?case by simp
next
  case (Cons m ms)
  obtain r g1 where r: "monthly_record R c info ba y ym m g = Inr (r, g1)"
    using monthly_record_ok[OF assms(1,2), of m R c ba ym g] Cons.prems by auto
  have jr: "job_record R ((c, info), (y, m)) g = Inr (r, g1)"
    using r assms(4,5) by (simp add: job_record_def)
  obtain rows g' where rows:
    "month_loop R c info ba y ym ms (data @ [r]) g1 = Inr ((data @ [r]) @ rows, g')"
    "run_jobs R (map (\<lambda>m. ((c, info), (y, m))) ms) g1 = Inr (rows, g')"
    using Cons.IH[of "data @ [r]" g1] Cons.prems by auto
  have "month_loop R c info ba y ym (m # ms) data g = Inr (data @ (r # rows), g')"
    using r rows(1) by simp
  moreover have "run_jobs R (map (\<lambda>m. ((c, info), (y, m))) (m # ms)) g = Inr (r # rows, g')"
    using jr rows(2) by simp
  ultimately show ?case by blast
qed

lemma year_loop_run:
  assumes "country_ok info" "set ys \<subseteq> set years" "base_arrivals_of info = Inr ba"
  shows "\<exists>rows g'. year_loop R c info ba ys data g = Inr (data @ rows, g') \<and>
           run_jobs R (map (Pair (c, info)) (List.product ys months)) g = Inr (rows, g')"
  using assms(2)
proof (induction ys arbitrary: data g)
  case Nil
  then show ?case by simp
next
  case (Cons y ys)
  have y: "y \<in> set years" using Cons.prems by simp
  obtain ym where ym: "dict_get year_multipliers y = Inr ym"
    using year_multiplier_ok[OF y] by auto
  obtain rows1 g1 where rows1:
    "month_loop R c info ba y ym months data g = Inr (data @ rows1, g1)"
    "run_jobs R (map (\<lambda>m. ((c, info), (y, m))) months) g = Inr (rows1, g1)"
    using month_loop_run[OF assms(1) y _ assms(3) ym, of months R c data g] by auto
  obtain rows2 g' where rows2:
    "year_loop R c info ba ys (data @ rows1) g1 = Inr ((data @ rows1) @ rows2, g')"
    "run_jobs R (map (Pair (c, info)) (List.product ys months)) g1 = Inr (rows2, g')"
    using Cons.IH[of "data @ rows1" g1] Cons.prems by auto
  have run: "year_loop R c info ba (y # ys) data g = Inr (data @ (rows1 @ rows2), g')"
    using ym rows1(1) rows2(1) by simp
  have eq: "map (Pair (c, info)) (List.product (y # ys) months) =
      map (\<lambda>m. ((c, info), (y, m))) months @ map (Pair (c, info)) (List.product ys months)"
    by (simp add: comp_def)
  have "run_jobs R (map (Pair (c, info)) (List.product (y # ys) months)) g =
      Inr (rows1 @ rows2, g')"
    unfolding eq by (rule run_jobs_append[OF rows1(2) rows2(2)])
  with run show ?case by blast
qed

lemma country_loop_run:
  assumes "list_all (\<lambda>(c, info). country_ok info) cs"
  shows "\<exists>rows g'. country_loop R cs data g = Inr (data @ rows, g') \<and>
           run_jobs R (List.product cs (List.product years months)) g = Inr (rows, g')"
  using assms
proof (induction cs arbitrary: data g)
  case Nil
  then show ?case by simp
next
  case (Cons p cs)
  obtain c info where p: "p = (c, info)" by (cases p)
  have ok: "country_ok info" using Cons.prems p by simp
  obtain ba where ba: "base_arrivals_of info = Inr ba"
    using base_arrivals_ok[OF ok] by auto
  obtain rows1 g1 where rows1:
    "year_loop R c info ba years data g = Inr (data @ rows1, g1)"
    "run_jobs R (map (Pair (c, info)) (List.product years months)) g = Inr (rows1, g1)"
    using year_loop_run[OF ok _ ba, of years R c data g] by auto
  obtain rows2 g' where rows2:
    "country_loop R cs (data @ rows1) g1 = Inr ((data @ rows1) @ rows2, g')"
    "run_jobs R (List.product cs (List.product years months)) g1 = Inr (rows2, g')"
    using Cons.IH[of "data @ rows1" g1] Cons.prems by auto
  have run: "country_loop R (p # cs) data g = Inr (data @ (rows1 @ rows2), g')"
    using p ba rows1(1) rows2(1) by simp
  have "run_jobs R (List.product (p # cs) (List.product years months)) g =
      Inr (rows1 @ rows2, g')"
    using run_jobs_append[OF rows1(2) rows2(2)] p by simp
  with run show ?case by blast
qed

lemma generate_run:
  "\<exists>T g'. generate_tourism_dataset R g = Inr (T, g') \<and>
     run_jobs R (List.product countries_data (List.product years months)) g = Inr (T, g')"
  using country_loop_run[OF countries_ok, of R "[]" g]
  by (simp add: generate_tourism_dataset_def)

lemma run_jobs_trace:
  assumes "run_jobs R js g = Inr (T, g')"
  shows "list_all2 (\<lambda>p r. \<exists>g1. job_record R (fst p) (snd p) = Inr (r, g1))
           (zip js (states_before R js g)) T"
  using assms
proof (induction js arbitrary: g T)
  case Nil
  then show ?case by simp
next
  case (Cons j js)
  from Cons.prems obtain r g1 rows where
    jr: "job_record R j g = Inr (r, g1)" and rest: "run_jobs R js g1 = Inr (rows, g')"
    and T: "T = r # rows"
    by (auto split: sum.splits prod.splits)
  from Cons.IH[OF rest] jr show ?case unfolding T by auto
qed

lemma run_jobs_lengths:
  assumes "run_jobs R js g = Inr (T, g')"
  shows "length T = length js \<and> length (states_before R js g) = length js"
  using assms
  by (induction js arbitrary: g T) (auto split: sum.splits prod.splits)

lemma run_jobs_states:
  assumes "run_jobs R js g = Inr (T, g')"
  shows "list_all2 (\<lambda>g0 r. \<exists>job g1. job \<in> set js \<and> job_record R job g0 = Inr (r, g1))
           (states_before R js g) T"
proof -
  have len: "length (states_before R js g) = length js" "length T = length js"
    using run_jobs_lengths[OF assms] by simp_all
  have "\<exists>job g1. job \<in> set js \<and> job_record R job (states_before R js g ! i) = Inr (T ! i, g1)"
    if i: "i < length js" for i
  proof -
    have z: "zip js (states_before R js g) ! i = (js ! i, states_before R js g ! i)"
      using i len by simp
    have "\<exists>g1. job_record R (fst (zip js (states_before R js g) ! i))
        (snd (zip js (states_before R js g) ! i)) = Inr (T ! i, g1)"
      using list_all2_nthD[OF run_jobs_trace[OF assms], of i] i len by simp
    then have "\<exists>g1. job_record R (js ! i) (states_before R js g ! i) = Inr (T ! i, g1)"
      unfolding z by simp
    moreover have "js ! i \<in> set js" using i by simp
    ultimately show ?thesis by blast
  qed
  then show ?thesis using len by (simp add: list_all2_conv_all_nth)
qed

lemma job_record_row:
  assumes "job_record R ((c, info), (y, m)) g = Inr (r, g')"
  shows "\<exists>rm pattern s ym gr g2.
    dict_get regional_multipliers (region info) = Inr rm \<and>
    dict_get seasonal_patterns (region info) = Inr pattern \<and>
    list_get pattern (m - 1) = Inr s \<and>
    dict_get year_multipliers y = Inr ym \<and>
    growth_rate_of R y ym (snd (random_normal R 0 0.1 g)) = Inr (gr, g2) \<and>
    Region r = region info \<and> Year r = y \<and> Month r = m \<and>
    Population r = population info \<and>
    arrival_row.Tourism_Maturity r = tourism_maturity info \<and>
    Arrivals r = py_int (perturbed_arrivals (base_monthly_of
        (scaled_base_arrivals (population info) (tourism_maturity info) rm) s ym)
        (fst (random_normal R 0 0.1 g))) \<and>
    Arrivals_Growth_Rate r = py_round gr 1"
proof -
  from assms obtain ba ym where
    ba: "base_arrivals_of info = Inr ba" and ym: "dict_get year_multipliers y = Inr ym"
    and mr: "monthly_record R c info ba y ym m g = Inr (r, g')"
    by (auto simp: job_record_def split: sum.splits)
  from ba obtain rm where rm: "dict_get regional_multipliers (region info) = Inr rm"
    and ba_eq: "ba = scaled_base_arrivals (population info) (tourism_maturity info) rm"
    by (auto simp: base_arrivals_of_def split: sum.splits)
  from mr obtain pattern where pat: "dict_get seasonal_patterns (region info) = Inr pattern"
    by (auto simp: monthly_record_def split: sum.splits)
  from mr pat obtain s where s: "list_get pattern (m - 1) = Inr s"
    by (auto simp: monthly_record_def split: sum.splits)
  from mr pat s obtain gr g2 where
    gr: "growth_rate_of R y ym (snd (random_normal R 0 0.1 g)) = Inr (gr, g2)"
    by (auto simp: monthly_record_def Let_def case_prod_beta split: sum.splits)
  from mr pat s gr have pop: "population info \<noteq> 0"
    by (auto simp: monthly_record_def Let_def case_prod_beta split: if_splits)
  show ?thesis
    apply (rule exI[of _ rm], rule exI[of _ pattern], rule exI[of _ s], rule exI[of _ ym],
        rule exI[of _ gr], rule exI[of _ g2])
    using mr pat s gr pop rm ym ba_eq
    by (auto simp: monthly_record_def Let_def case_prod_beta)
qed

section \<open>The verifier: which checks run\<close>

lemma checks_run_append: "checks_run (xs @ ys) = checks_run xs @ checks_run ys"
  by (induction xs rule: checks_run.induct) simp_all

lemma checks_run_report: "checks_run (map (report conn) qs) = qs"
  by (induction qs) (simp_all add: report_def split: sum.splits)

lemma test_sql_compatibility_gated:
  "test_sql_compatibility conn out = gated_checks conn basic_checks out"
  by (simp add: test_sql_compatibility_def basic_checks_def Let_def split: sum.splits)

lemma gated_checks_fst: "fst (gated_checks conn qs out) = list_all (runs conn) qs"
  by (induction qs arbitrary: out) (simp_all add: runs_def split: sum.splits)

lemma gated_checks_snd:
  "snd (gated_checks conn qs out) =
     out @ map (report conn) (takeWhile (runs conn) qs @ take 1 (dropWhile (runs conn) qs))"
  by (induction qs arbitrary: out) (simp_all add: runs_def report_def split: sum.splits)

lemma specific_solutions_lines:
  "test_specific_sql_solutions conn out = out @ map (report conn) specific_checks"
  by (simp add: test_specific_sql_solutions_def try_solution_def specific_checks_def
      report_def Let_def split: sum.splits)

lemma analyze_data_quality_checks:
  "(case analyze_data_quality conn out of
      Inl (e, out') \<Rightarrow> checks_run out' = checks_run out
    | Inr out' \<Rightarrow> checks_run out' = checks_run out)"
  by (simp add: analyze_data_quality_def Let_def checks_run_append split: sum.splits)

lemma verifier_main_halted:
  "(fst (verifier_main True conn) = Halted) = (\<not> list_all (runs conn) basic_checks)"
  using gated_checks_fst[of conn basic_checks "[Database_Created]"]
  by (simp add: verifier_main_def test_sql_compatibility_gated case_prod_beta Let_def
      split: sum.splits prod.splits)

lemma verifier_main_checks:
  "checks_run (snd (verifier_main True conn)) =
     takeWhile (runs conn) basic_checks @ take 1 (dropWhile (runs conn) basic_checks) @
     (if list_all (runs conn) basic_checks then specific_checks else [])"
proof (cases "list_all (runs conn) basic_checks")
  case True
  then have f: "fst (gated_checks conn basic_checks [Database_Created])"
    by (simp add: gated_checks_fst)
  show ?thesis
    using analyze_data_quality_checks[where conn = conn and out = "snd (gated_checks conn basic_checks [Database_Created]) @
        All_Basic_Passed # map (report conn) specific_checks"] f True
    by (auto simp: verifier_main_def test_sql_compatibility_gated case_prod_beta Let_def
        specific_solutions_lines gated_checks_snd checks_run_append checks_run_report
        split: sum.splits)
next
  case False
  then have f: "\<not> fst (gated_checks conn basic_checks [Database_Created])"
    by (simp add: gated_checks_fst)
  show ?thesis
    using f False
    by (simp add: verifier_main_def test_sql_compatibility_gated case_prod_beta
        gated_checks_snd checks_run_append checks_run_report)
qed

text \<open>
  Claim C4, as the code has it. On a table with no rows every statement of the verifier
  runs: the count is 0, the basic check is reported as passed, and the verifier goes
  through all eight checks and the quality report to the end; it does not halt.
\<close>

theorem empty_table_counterexample:
  "verifier_main True empty_table_connection =
     (Completed,
      [Database_Created,
       Check_Passed Basic_Select (Some 0),
       Check_Passed Year_Range_Query None,
       Check_Passed Peak_Off_Season_Analysis (Some 0),
       Check_Passed Growth_Rate_Calculation (Some 0),
       Check_Passed Regional_Analysis (Some 0),
       All_Basic_Passed,
       Check_Passed Solution_1 (Some 0),
       Check_Passed Solution_3 (Some 0),
       Check_Passed Solution_4 (Some 0),
       Quality_Line Quality_Missing_Values (Some 0),
       Quality_Line Quality_Year_Range None,
       Quality_Line Quality_Country_Distribution (Some 0),
       Script_Created,
       Dataset_Compatible])"
  by (simp add: verifier_main_def test_sql_compatibility_def empty_table_connection_def
      test_specific_sql_solutions_def try_solution_def analyze_data_quality_def)

text \<open>
  Claim C4, amended. When the count statement returns 0 the basic check is reported as
  passed with the value 0, the year-range check is run next, and the verifier halts
  exactly when one of the four remaining basic statements raises.
\<close>

theorem zero_count_continues:
  assumes "conn Basic_Select = Inr (Some 0)"
  shows "Check_Passed Basic_Select (Some 0) \<in> set (snd (verifier_main True conn)) \<and>
         take 2 (checks_run (snd (verifier_main True conn))) = [Basic_Select, Year_Range_Query] \<and>
         (fst (verifier_main True conn) = Halted) = (\<not> list_all (runs conn) (tl basic_checks))"
proof (intro conjI)
  have r: "runs conn Basic_Select" using assms by (simp add: runs_def)
  show "(fst (verifier_main True conn) = Halted) = (\<not> list_all (runs conn) (tl basic_checks))"
    using r by (simp add: verifier_main_halted basic_checks_def)
  show "take 2 (checks_run (snd (verifier_main True conn))) = [Basic_Select, Year_Range_Query]"
    using r by (simp add: verifier_main_checks basic_checks_def)
  have "report conn Basic_Select = Check_Passed Basic_Select (Some 0)"
    using assms by (simp add: report_def)
  then have "Check_Passed Basic_Select (Some 0) \<in>
      set (snd (gated_checks conn basic_checks [Database_Created]))"
    unfolding gated_checks_snd using r by (simp add: basic_checks_def)
  then show "Check_Passed Basic_Select (Some 0) \<in> set (snd (verifier_main True conn))"
    using analyze_data_quality_checks[where conn = conn and out = "snd (gated_checks conn basic_checks [Database_Created]) @
        All_Basic_Passed # map (report conn) specific_checks"]
    apply (simp add: verifier_main_def test_sql_compatibility_gated case_prod_beta Let_def
        specific_solutions_lines split: sum.splits prod.splits)
    apply (auto simp: analyze_data_quality_def Let_def split: sum.splits)
    done
qed

theorem zero_count_continues_witness:
  "empty_table_connection Basic_Select = Inr (Some 0) \<and>
   Check_Passed Basic_Select (Some 0) \<in> set (snd (verifier_main True empty_table_connection)) \<and>
   take 2 (checks_run (snd (verifier_main True empty_table_connection))) =
     [Basic_Select, Year_Range_Query] \<and>
   fst (verifier_main True empty_table_connection) \<noteq> Halted"
proof -
  have h: "empty_table_connection Basic_Select = Inr (Some 0)"
    by (simp add: empty_table_connection_def)
  have "list_all (runs empty_table_connection) (tl basic_checks)"
    by (simp add: basic_checks_def runs_def empty_table_connection_def)
  with zero_count_continues[of empty_table_connection] h show ?thesis by simp
qed

text \<open>
  Claim C5, as the code has it. On a table without the \<open>Year\<close> column the count check
  passes, the second basic check raises, and the verifier halts there: the three later
  basic checks and the three solution checks are never run.
\<close>

theorem year_range_failure_counterexample:
  "verifier_main True no_year_connection =
     (Halted,
      [Database_Created,
       Check_Passed Basic_Select (Some 3900),
       Check_Failed Year_Range_Query ''no such column: Year'',
       Some_Basic_Failed])"
  by (simp add: verifier_main_def test_sql_compatibility_def no_year_connection_def)

text \<open>
  Claim C5, amended. Each of the three solution checks is run and reported whatever
  the others do. The five basic checks are a gate, each of them: the battery reports
  the checks up to and including the first one that raises and returns \<open>False\<close>
  exactly when one raises; the verifier then halts, and the solution checks are run
  exactly when all five basic checks ran without error.
\<close>

theorem failure_handling:
  "test_specific_sql_solutions conn out = out @ map (report conn) specific_checks \<and>
   fst (test_sql_compatibility conn out) = list_all (runs conn) basic_checks \<and>
   snd (test_sql_compatibility conn out) =
     out @ map (report conn)
             (takeWhile (runs conn) basic_checks @ take 1 (dropWhile (runs conn) basic_checks)) \<and>
   (fst (verifier_main True conn) = Halted) = (\<not> list_all (runs conn) basic_checks) \<and>
   checks_run (snd (verifier_main True conn)) =
     takeWhile (runs conn) basic_checks @ take 1 (dropWhile (runs conn) basic_checks) @
     (if list_all (runs conn) basic_checks then specific_checks else [])"
  by (simp only: specific_solutions_lines test_sql_compatibility_gated gated_checks_fst
      gated_checks_snd verifier_main_halted verifier_main_checks simp_thms)

section \<open>Arrivals: sign and formula\<close>

lemma list_all2_imp_list_all:
  assumes "list_all2 P xs ys" and "\<And>x y. P x y \<Longrightarrow> Q y"
  shows "list_all Q ys"
  using assms by (induction rule: list_all2_induct) auto

lemma list_all2_imp_map_eq:
  assumes "list_all2 P xs ys" and "\<And>x y. P x y \<Longrightarrow> f y = h x"
  shows "map f ys = map h xs"
  using assms by (induction rule: list_all2_induct) auto

lemma py_int_nonneg: "0 \<le> x \<Longrightarrow> 0 \<le> py_int x"
  by (simp add: py_int_def)


lemma produced_by_cases:
  assumes "produced_by R job r"
  obtains c info y m where "job = ((c, info), (y, m))" "produced_by R ((c, info), (y, m)) r"
  using assms by (cases job) auto

lemma jobs_length:
  "length (List.product countries_data (List.product years months)) = 3900"
proof -
  have "length countries_data = 65" by (simp add: countries_data_def)
  moreover have "length years = 5" by (simp add: years_def)
  moreover have "length months = 12" by (simp add: months_eq)
  ultimately show ?thesis by simp
qed

lemma job_record_arrivals:
  assumes "job_record R job g0 = Inr (r, g1)"
  shows "(\<lambda>g0 r. \<exists>rm pattern s ym.
          dict_get regional_multipliers (Region r) = Inr rm \<and>
          dict_get seasonal_patterns (Region r) = Inr pattern \<and>
          list_get pattern (Month r - 1) = Inr s \<and>
          dict_get year_multipliers (Year r) = Inr ym \<and>
          Arrivals r = py_int (max 0
            (base_monthly_of
               (scaled_base_arrivals (Population r) (arrival_row.Tourism_Maturity r) rm) s ym
             * (1 + fst (random_normal R 0 0.1 g0))))) g0 r"
proof -
  obtain c info y m where j: "job = ((c, info), (y, m))"
    by (metis surj_pair)
  from job_record_row[OF assms[unfolded j]] show ?thesis
    unfolding perturbed_arrivals_def by metis
qed

lemma maturity_known:
  "list_all (\<lambda>(c, info). tourism_maturity info = ''mature'' \<or>
      tourism_maturity info = ''emerging'') countries_data"
  by (simp add: countries_data_def)

lemma job_record_formula:
  assumes "job \<in> set (List.product countries_data (List.product years months))"
    and "job_record R job g0 = Inr (r, g1)"
  shows "(\<lambda>g0 r. \<exists>rm pattern s ym.
          dict_get regional_multipliers (Region r) = Inr rm \<and>
          dict_get seasonal_patterns (Region r) = Inr pattern \<and>
          list_get pattern (Month r - 1) = Inr s \<and>
          dict_get year_multipliers (Year r) = Inr ym \<and>
          (arrival_row.Tourism_Maturity r = ''mature'' \<or>
           arrival_row.Tourism_Maturity r = ''emerging'') \<and>
          Arrivals r = py_int (max 0
            (of_int (Population r) * 0.1
               * (if arrival_row.Tourism_Maturity r = ''mature'' then 1.5 else 0.8)
               * rm / 12 * s * ym
             * (1 + fst (random_normal R 0 0.1 g0))))) g0 r"
proof -
  obtain c info y m where j: "job = ((c, info), (y, m))"
    by (metis surj_pair)
  from assms(1) have "(c, info) \<in> set countries_data" unfolding j by simp
  then have mat: "tourism_maturity info = ''mature'' \<or> tourism_maturity info = ''emerging''"
    using maturity_known by (auto simp: list_all_iff)
  from job_record_row[OF assms(2)[unfolded j]] obtain rm pattern s ym where f:
    "dict_get regional_multipliers (region info) = Inr rm"
    "dict_get seasonal_patterns (region info) = Inr pattern"
    "list_get pattern (m - 1) = Inr s"
    "dict_get year_multipliers y = Inr ym"
    "Region r = region info" "Year r = y" "Month r = m" "Population r = population info"
    "arrival_row.Tourism_Maturity r = tourism_maturity info"
    "Arrivals r = py_int (perturbed_arrivals (base_monthly_of
        (scaled_base_arrivals (population info) (tourism_maturity info) rm) s ym)
        (fst (random_normal R 0 0.1 g0)))"
    by blast
  have "perturbed_arrivals (base_monthly_of
        (scaled_base_arrivals (population info) (tourism_maturity info) rm) s ym)
        (fst (random_normal R 0 0.1 g0)) =
      max 0 (of_int (population info) * 0.1
               * (if tourism_maturity info = ''mature'' then 1.5 else 0.8)
               * rm / 12 * s * ym
             * (1 + fst (random_normal R 0 0.1 g0)))"
    using mat
    by (auto simp: perturbed_arrivals_def base_monthly_of_def scaled_base_arrivals_def)
  with f mat show ?thesis by auto
qed

text \<open>
  Claim C6. Generation succeeds and gives 3900 records. In every record the arrivals
  value is non-negative: record by record it is the integer part of
  \<open>max(0, monthly * (1 + variation))\<close>, where \<open>monthly\<close> is the monthly base of the
  record's own country, month and year and \<open>variation\<close> is the draw from
  \<open>normal(0, 0.1)\<close> made in the state \<open>g0\<close> in which the record's iteration starts.
\<close>

theorem arrivals_nonnegative:
  "\<exists>T g'. generate_tourism_dataset R g = Inr (T, g') \<and>
     length T = 3900 \<and>
     list_all (\<lambda>r. 0 \<le> Arrivals r) T \<and>
     list_all2
       (\<lambda>g0 r. \<exists>rm pattern s ym.
          dict_get regional_multipliers (Region r) = Inr rm \<and>
          dict_get seasonal_patterns (Region r) = Inr pattern \<and>
          list_get pattern (Month r - 1) = Inr s \<and>
          dict_get year_multipliers (Year r) = Inr ym \<and>
          Arrivals r = py_int (max 0
            (base_monthly_of
               (scaled_base_arrivals (Population r) (arrival_row.Tourism_Maturity r) rm) s ym
             * (1 + fst (random_normal R 0 0.1 g0)))))
       (states_before R (List.product countries_data (List.product years months)) g) T"
proof -
  obtain T g' where run: "generate_tourism_dataset R g = Inr (T, g')"
    and jobs: "run_jobs R (List.product countries_data (List.product years months)) g = Inr (T, g')"
    using generate_run[of R g] by blast
  have len: "length T = 3900"
    using run_jobs_lengths[OF jobs] jobs_length by simp
  have rel: "list_all2
       (\<lambda>g0 r. \<exists>rm pattern s ym.
          dict_get regional_multipliers (Region r) = Inr rm \<and>
          dict_get seasonal_patterns (Region r) = Inr pattern \<and>
          list_get pattern (Month r - 1) = Inr s \<and>
          dict_get year_multipliers (Year r) = Inr ym \<and>
          Arrivals r = py_int (max 0
            (base_monthly_of
               (scaled_base_arrivals (Population r) (arrival_row.Tourism_Maturity r) rm) s ym
             * (1 + fst (random_normal R 0 0.1 g0)))))
       (states_before R (List.product countries_data (List.product years months)) g) T"
    (is "list_all2 ?REL _ _")
  proof (rule list_all2_mono[OF run_jobs_states[OF jobs]])
    fix g0 r
    assume "\<exists>job g1. job \<in> set (List.product countries_data (List.product years months)) \<and>
      job_record R job g0 = Inr (r, g1)"
    then obtain job g1 where
      a: "job \<in> set (List.product countries_data (List.product years months))"
      and b: "job_record R job g0 = Inr (r, g1)"
      by blast
    show "?REL g0 r"
      by (rule job_record_arrivals[OF b])
  qed
  have "list_all (\<lambda>r. 0 \<le> Arrivals r) T"
    by (rule list_all2_imp_list_all[OF rel]) (auto intro!: py_int_nonneg)
  with run len rel show ?thesis by blast
qed

text \<open>
  Claim C7. Before perturbation the monthly arrivals are
  \<open>population * 0.1 * maturity_factor * regional_multiplier / 12 * seasonal_multiplier *
  year_multiplier\<close>, with factor 1.5 for a mature and 0.8 for an emerging market; for a
  population of 1,000,000, a mature market, all three multipliers 1.0 and no perturbation
  the arrivals value is 12,500. The generator computes every one of its 3900 records so:
  each market is mature or emerging, and the stored arrivals are the integer part of
  that product at the record's own population, maturity, region, month and year, times
  one plus the draw made in the state \<open>g0\<close> in which the record's iteration starts,
  clamped at zero. All arithmetic is exact.
\<close>

theorem monthly_arrivals_formula:
  "base_monthly_of (scaled_base_arrivals P ''mature'' rm) s ym =
     of_int P * 0.1 * 1.5 * rm / 12 * s * ym \<and>
   base_monthly_of (scaled_base_arrivals P ''emerging'' rm) s ym =
     of_int P * 0.1 * 0.8 * rm / 12 * s * ym \<and>
   perturbed_arrivals (base_monthly_of (scaled_base_arrivals 1000000 ''mature'' 1.0) 1.0 1.0) 0
     = 12500 \<and>
   py_int (perturbed_arrivals
      (base_monthly_of (scaled_base_arrivals 1000000 ''mature'' 1.0) 1.0 1.0) 0) = 12500 \<and>
   (\<exists>T g'. generate_tourism_dataset R g = Inr (T, g') \<and>
      length T = 3900 \<and>
      list_all2
        (\<lambda>g0 r. \<exists>rm pattern s ym.
          dict_get regional_multipliers (Region r) = Inr rm \<and>
          dict_get seasonal_patterns (Region r) = Inr pattern \<and>
          list_get pattern (Month r - 1) = Inr s \<and>
          dict_get year_multipliers (Year r) = Inr ym \<and>
          (arrival_row.Tourism_Maturity r = ''mature'' \<or>
           arrival_row.Tourism_Maturity r = ''emerging'') \<and>
          Arrivals r = py_int (max 0
            (of_int (Population r) * 0.1
               * (if arrival_row.Tourism_Maturity r = ''mature'' then 1.5 else 0.8)
               * rm / 12 * s * ym
             * (1 + fst (random_normal R 0 0.1 g0)))))
        (states_before R (List.product countries_data (List.product years months)) g) T)"
proof (intro conjI)
  show "base_monthly_of (scaled_base_arrivals P ''mature'' rm) s ym =
     of_int P * 0.1 * 1.5 * rm / 12 * s * ym"
    by (simp add: base_monthly_of_def scaled_base_arrivals_def)
  show "base_monthly_of (scaled_base_arrivals P ''emerging'' rm) s ym =
     of_int P * 0.1 * 0.8 * rm / 12 * s * ym"
    by (simp add: base_monthly_of_def scaled_base_arrivals_def)
  show "perturbed_arrivals (base_monthly_of (scaled_base_arrivals 1000000 ''mature'' 1.0) 1.0 1.0) 0
     = 12500"
    by (simp add: base_monthly_of_def scaled_base_arrivals_def perturbed_arrivals_def)
  show "py_int (perturbed_arrivals
      (base_monthly_of (scaled_base_arrivals 1000000 ''mature'' 1.0) 1.0 1.0) 0) = 12500"
    by (simp add: base_monthly_of_def scaled_base_arrivals_def perturbed_arrivals_def
        py_int_def)
  obtain T g' where run: "generate_tourism_dataset R g = Inr (T, g')"
    and jobs: "run_jobs R (List.product countries_data (List.product years months)) g = Inr (T, g')"
    using generate_run[of R g] by blast
  have len: "length T = 3900"
    using run_jobs_lengths[OF jobs] jobs_length by simp
  have rel: "list_all2
        (\<lambda>g0 r. \<exists>rm pattern s ym.
          dict_get regional_multipliers (Region r) = Inr rm \<and>
          dict_get seasonal_patterns (Region r) = Inr pattern \<and>
          list_get pattern (Month r - 1) = Inr s \<and>
          dict_get year_multipliers (Year r) = Inr ym \<and>
          (arrival_row.Tourism_Maturity r = ''mature'' \<or>
           arrival_row.Tourism_Maturity r = ''emerging'') \<and>
          Arrivals r = py_int (max 0
            (of_int (Population r) * 0.1
               * (if arrival_row.Tourism_Maturity r = ''mature'' then 1.5 else 0.8)
               * rm / 12 * s * ym
             * (1 + fst (random_normal R 0 0.1 g0)))))
        (states_before R (List.product countries_data (List.product years months)) g) T"
    (is "list_all2 ?REL _ _")
  proof (rule list_all2_mono[OF run_jobs_states[OF jobs]])
    fix g0 r
    assume "\<exists>job g1. job \<in> set (List.product countries_data (List.product years months)) \<and>
      job_record R job g0 = Inr (r, g1)"
    then obtain job g1 where
      a: "job \<in> set (List.product countries_data (List.product years months))"
      and b: "job_record R job g0 = Inr (r, g1)"
      by blast
    show "?REL g0 r"
      by (rule job_record_formula[OF a b])
  qed
  with run len show "\<exists>T g'. generate_tourism_dataset R g = Inr (T, g') \<and>
      length T = 3900 \<and>
      list_all2
        (\<lambda>g0 r. \<exists>rm pattern s ym.
          dict_get regional_multipliers (Region r) = Inr rm \<and>
          dict_get seasonal_patterns (Region r) = Inr pattern \<and>
          list_get pattern (Month r - 1) = Inr s \<and>
          dict_get year_multipliers (Year r) = Inr ym \<and>
          (arrival_row.Tourism_Maturity r = ''mature'' \<or>
           arrival_row.Tourism_Maturity r = ''emerging'') \<and>
          Arrivals r = py_int (max 0
            (of_int (Population r) * 0.1
               * (if arrival_row.Tourism_Maturity r = ''mature'' then 1.5 else 0.8)
               * rm / 12 * s * ym
             * (1 + fst (random_normal R 0 0.1 g0)))))
        (states_before R (List.product countries_data (List.product years months)) g) T"
    by blast
qed

section \<open>Growth rate\<close>

lemma growth_first_year:
  "growth_rate_of R 2018 ym g = Inr (random_normal R 2 3 g)"
  by (simp add: growth_rate_of_def case_prod_beta)

lemma growth_later_year:
  assumes "dict_get year_multipliers (y - 1) = Inr previous" "previous \<noteq> 0" "2018 < y"
  shows "growth_rate_of R y ym g =
     Inr ((ym - previous) / previous * 100 + fst (random_normal R 0 5 g),
          snd (random_normal R 0 5 g))"
  using assms by (simp add: growth_rate_of_def case_prod_beta Let_def)

lemma year_multiplier_values:
  "dict_get year_multipliers 2018 = Inr 1.0" "dict_get year_multipliers 2019 = Inr 1.05"
  "dict_get year_multipliers 2020 = Inr 0.3" "dict_get year_multipliers 2021 = Inr 0.6"
  "dict_get year_multipliers 2022 = Inr 0.85"
  by (simp_all add: dict_get_def year_multipliers_def)

lemma previous_year_multiplier:
  assumes "y \<in> set years" "y \<noteq> 2018"
  shows "\<exists>previous. dict_get year_multipliers (y - 1) = Inr previous \<and> previous \<noteq> 0 \<and> 2018 < y"
proof -
  from assms consider "y = 2019" | "y = 2020" | "y = 2021" | "y = 2022"
    by (auto simp: years_def)
  then show ?thesis
  proof cases
    case 1
    then show ?thesis using year_multiplier_values(1) by (intro exI[of _ "1.0"]) simp
  next
    case 2
    then show ?thesis using year_multiplier_values(2) by (intro exI[of _ "1.05"]) simp
  next
    case 3
    then show ?thesis using year_multiplier_values(3) by (intro exI[of _ "0.3"]) simp
  next
    case 4
    then show ?thesis using year_multiplier_values(4) by (intro exI[of _ "0.6"]) simp
  qed
qed

lemma job_record_growth:
  assumes "job \<in> set (List.product countries_data (List.product years months))"
    and "job_record R job g0 = Inr (r, g1)"
  shows "\<exists>ym.
          dict_get year_multipliers (Year r) = Inr ym \<and>
          (if Year r = 2018
           then Arrivals_Growth_Rate r =
                  py_round (fst (random_normal R 2 3 (snd (random_normal R 0 0.1 g0)))) 1
           else \<exists>previous.
                  dict_get year_multipliers (Year r - 1) = Inr previous \<and>
                  Arrivals_Growth_Rate r =
                    py_round ((ym - previous) / previous * 100
                       + fst (random_normal R 0 5 (snd (random_normal R 0 0.1 g0)))) 1)"
proof -
  obtain c info y m where j: "job = ((c, info), (y, m))"
    by (metis surj_pair)
  from assms(1) have y: "y \<in> set years" unfolding j by simp
  from job_record_row[OF assms(2)[unfolded j]] obtain ym gr g2 where f:
    "dict_get year_multipliers y = Inr ym"
    "growth_rate_of R y ym (snd (random_normal R 0 0.1 g0)) = Inr (gr, g2)"
    "Year r = y" "Arrivals_Growth_Rate r = py_round gr 1"
    by blast
  show ?thesis
  proof (cases "y = 2018")
    case True
    then have "gr = fst (random_normal R 2 3 (snd (random_normal R 0 0.1 g0)))"
      using f(2) growth_first_year[of R ym "snd (random_normal R 0 0.1 g0)"] by simp
    then show ?thesis using f True by auto
  next
    case False
    from previous_year_multiplier[OF y False] obtain previous where p:
      "dict_get year_multipliers (y - 1) = Inr previous" "previous \<noteq> 0" "2018 < y"
      by blast
    have "gr = (ym - previous) / previous * 100
        + fst (random_normal R 0 5 (snd (random_normal R 0 0.1 g0)))"
      using f(2) growth_later_year[OF p, of R ym "snd (random_normal R 0 0.1 g0)"] by simp
    then show ?thesis using f False p(1) by auto
  qed
qed

text \<open>
  Claim C8, amended. The growth rate computed for 2018 is one draw from
  \<open>normal(2, 3)\<close>; the one computed for a later year \<open>y\<close> is
  \<open>(yearFactor[y] - yearFactor[y-1]) / yearFactor[y-1] * 100\<close> plus one draw from
  \<open>normal(0, 5)\<close>; it is a function of the year, the year multipliers and the source
  only, never of the arrivals. What each of the 3900 records stores is that value
  rounded to one decimal, the draw being the one made right after the record's
  \<open>normal(0, 0.1)\<close> draw, \<open>g0\<close> being the state in which the record's iteration starts.
\<close>

theorem growth_rate_from_year_multipliers:
  "growth_rate_of R 2018 1.0 g = Inr (random_normal R 2 3 g) \<and>
   growth_rate_of R 2019 1.05 g =
     Inr ((1.05 - 1.0) / 1.0 * 100 + fst (random_normal R 0 5 g), snd (random_normal R 0 5 g)) \<and>
   growth_rate_of R 2020 0.3 g =
     Inr ((0.3 - 1.05) / 1.05 * 100 + fst (random_normal R 0 5 g), snd (random_normal R 0 5 g)) \<and>
   growth_rate_of R 2021 0.6 g =
     Inr ((0.6 - 0.3) / 0.3 * 100 + fst (random_normal R 0 5 g), snd (random_normal R 0 5 g)) \<and>
   growth_rate_of R 2022 0.85 g =
     Inr ((0.85 - 0.6) / 0.6 * 100 + fst (random_normal R 0 5 g), snd (random_normal R 0 5 g)) \<and>
   (\<exists>T g'. generate_tourism_dataset R g = Inr (T, g') \<and>
      length T = 3900 \<and>
      list_all2
        (\<lambda>g0 r. \<exists>ym.
          dict_get year_multipliers (Year r) = Inr ym \<and>
          (if Year r = 2018
           then Arrivals_Growth_Rate r =
                  py_round (fst (random_normal R 2 3 (snd (random_normal R 0 0.1 g0)))) 1
           else \<exists>previous.
                  dict_get year_multipliers (Year r - 1) = Inr previous \<and>
                  Arrivals_Growth_Rate r =
                    py_round ((ym - previous) / previous * 100
                       + fst (random_normal R 0 5 (snd (random_normal R 0 0.1 g0)))) 1))
        (states_before R (List.product countries_data (List.product years months)) g) T)"
proof -
  note l = year_multiplier_values
  have g19: "growth_rate_of R 2019 1.05 g =
     Inr ((1.05 - 1.0) / 1.0 * 100 + fst (random_normal R 0 5 g), snd (random_normal R 0 5 g))"
    using growth_later_year[of 2019 "1.0" R "1.05" g] l by simp
  have g20: "growth_rate_of R 2020 0.3 g =
     Inr ((0.3 - 1.05) / 1.05 * 100 + fst (random_normal R 0 5 g), snd (random_normal R 0 5 g))"
    using growth_later_year[of 2020 "1.05" R "0.3" g] l by simp
  have g21: "growth_rate_of R 2021 0.6 g =
     Inr ((0.6 - 0.3) / 0.3 * 100 + fst (random_normal R 0 5 g), snd (random_normal R 0 5 g))"
    using growth_later_year[of 2021 "0.3" R "0.6" g] l by simp
  have g22: "growth_rate_of R 2022 0.85 g =
     Inr ((0.85 - 0.6) / 0.6 * 100 + fst (random_normal R 0 5 g), snd (random_normal R 0 5 g))"
    using growth_later_year[of 2022 "0.6" R "0.85" g] l by simp
  obtain T g' where run: "generate_tourism_dataset R g = Inr (T, g')"
    and jobs: "run_jobs R (List.product countries_data (List.product years months)) g = Inr (T, g')"
    using generate_run[of R g] by blast
  have len: "length T = 3900"
    using run_jobs_lengths[OF jobs] jobs_length by simp
  have rel: "list_all2
        (\<lambda>g0 r. \<exists>ym.
          dict_get year_multipliers (Year r) = Inr ym \<and>
          (if Year r = 2018
           then Arrivals_Growth_Rate r =
                  py_round (fst (random_normal R 2 3 (snd (random_normal R 0 0.1 g0)))) 1
           else \<exists>previous.
                  dict_get year_multipliers (Year r - 1) = Inr previous \<and>
                  Arrivals_Growth_Rate r =
                    py_round ((ym - previous) / previous * 100
                       + fst (random_normal R 0 5 (snd (random_normal R 0 0.1 g0)))) 1))
        (states_before R (List.product countries_data (List.product years months)) g) T"
    (is "list_all2 ?REL _ _")
  proof (rule list_all2_mono[OF run_jobs_states[OF jobs]])
    fix g0 r
    assume "\<exists>job g1. job \<in> set (List.product countries_data (List.product years months)) \<and>
      job_record R job g0 = Inr (r, g1)"
    then obtain job g1 where
      a: "job \<in> set (List.product countries_data (List.product years months))"
      and b: "job_record R job g0 = Inr (r, g1)"
      by blast
    show "?REL g0 r"
      by (rule job_record_growth[OF a b])
  qed
  with run len have table: "\<exists>T g'. generate_tourism_dataset R g = Inr (T, g') \<and>
      length T = 3900 \<and>
      list_all2
        (\<lambda>g0 r. \<exists>ym.
          dict_get year_multipliers (Year r) = Inr ym \<and>
          (if Year r = 2018
           then Arrivals_Growth_Rate r =
                  py_round (fst (random_normal R 2 3 (snd (random_normal R 0 0.1 g0)))) 1
           else \<exists>previous.
                  dict_get year_multipliers (Year r - 1) = Inr previous \<and>
                  Arrivals_Growth_Rate r =
                    py_round ((ym - previous) / previous * 100
                       + fst (random_normal R 0 5 (snd (random_normal R 0 0.1 g0)))) 1))
        (states_before R (List.product countries_data (List.product years months)) g) T"
    by blast
  from growth_first_year[of R "1.0" g] g19 g20 g21 g22 table show ?thesis
    by (intro conjI)
qed

lemma france_job:
  "List.product countries_data (List.product years months) ! 0 =
     ((''France'', \<lparr>region = ''Europe'', population = 67390000, gdp_per_capita = 42000,
        tourism_maturity = ''mature''\<rparr>), (2018, 1))"
proof -
  define YM where "YM = List.product years months"
  have l: "length YM = 60"
    by (simp add: YM_def years_def months_eq)
  have n: "length countries_data = 65"
    by (simp add: countries_data_def)
  have lt: "(0::nat) < length countries_data * length YM"
    unfolding n l by simp
  have "List.product countries_data YM ! 0 =
      (countries_data ! (0 div length YM), YM ! (0 mod length YM))"
    by (rule product_nth[OF lt])
  then have "List.product countries_data YM ! 0 = (countries_data ! 0, YM ! 0)"
    by simp
  moreover have "countries_data ! 0 =
      (''France'', \<lparr>region = ''Europe'', population = 67390000, gdp_per_capita = 42000,
        tourism_maturity = ''mature''\<rparr>)"
    by (simp add: countries_data_def)
  moreover have "YM ! 0 = (2018, 1)"
    by (simp add: YM_def years_def months_eq)
  ultimately show ?thesis by (simp add: YM_def)
qed

text \<open>
  Claim C8, as the code has it. With a source whose normal variates are all 0.17 the
  draw from \<open>normal(2, 3)\<close> is \<open>2 + 3 * 0.17 = 2.51\<close> in every state, and the first
  record of the table (France, January 2018) stores the growth rate
  \<open>round(2.51, 1) = 2.5\<close>: the stored growth rate of a 2018 record is not the draw.
\<close>

theorem growth_rate_counterexample:
  "(case generate_tourism_dataset (constant_source (17 / 100) (1 / 2)) () of
      Inl e \<Rightarrow> False
    | Inr (T, g') \<Rightarrow>
        Country (T ! 0) = ''France'' \<and> Year (T ! 0) = 2018 \<and> Month (T ! 0) = 1 \<and>
        Arrivals_Growth_Rate (T ! 0) = 25 / 10 \<and>
        fst (random_normal (constant_source (17 / 100) (1 / 2)) 2 3 ()) = 251 / 100)"
proof -
  define R where "R = constant_source (17 / 100) (1 / 2)"
  define info where "info = \<lparr>region = ''Europe'', population = 67390000,
    gdp_per_capita = 42000, tourism_maturity = ''mature''\<rparr>"
  obtain T g' where run: "generate_tourism_dataset R () = Inr (T, g')"
    and rows: "list_all2 (produced_by R)
      (List.product countries_data (List.product years months)) T"
    using generate_structure[of R "()"] by blast
  have lt: "0 < length (List.product countries_data (List.product years months))"
    by (simp only: jobs_length)
  have "produced_by R (List.product countries_data (List.product years months) ! 0) (T ! 0)"
    by (rule list_all2_nthD[OF rows lt])
  then have "produced_by R ((''France'', info), (2018, 1)) (T ! 0)"
    by (simp only: france_job info_def)
  from produced_by_row[OF this] obtain ym g gr g2 where f:
    "dict_get year_multipliers 2018 = Inr ym"
    "growth_rate_of R 2018 ym (snd (random_normal R 0 0.1 g)) = Inr (gr, g2)"
    "Country (T ! 0) = ''France''" "Year (T ! 0) = 2018" "Month (T ! 0) = 1"
    "Arrivals_Growth_Rate (T ! 0) = py_round gr 1"
    by blast
  have d: "fst (random_normal R 2 3 s) = 251 / 100" for s
    by (simp add: R_def constant_source_def)
  from f(2) have "random_normal R 2 3 (snd (random_normal R 0 0.1 g)) = (gr, g2)"
    by (simp add: growth_first_year)
  then have "gr = fst (random_normal R 2 3 (snd (random_normal R 0 0.1 g)))"
    by simp
  then have gr: "gr = 251 / 100"
    by (simp only: d)
  have rounded: "py_round (251 / 100) 1 = 25 / 10"
    by (simp add: py_round_def round_half_even_def Let_def)
  have "Arrivals_Growth_Rate (T ! 0) = 25 / 10"
    unfolding f(6) gr by (rule rounded)
  with run f d[of "()"] show ?thesis
    unfolding R_def by simp
qed

section \<open>Keys and country codes\<close>

lemma produced_by_key:
  assumes "produced_by R job r"
  shows "row_key r = (fst (fst job), snd job)"
proof -
  from assms obtain c info y m where j: "job = ((c, info), (y, m))"
    and "produced_by R ((c, info), (y, m)) r"
    by (rule produced_by_cases)
  from produced_by_row[OF this(2)] have "Country r = c" "Year r = y" "Month r = m" by auto
  with j show ?thesis by (simp add: row_key_def)
qed

lemma product_map_fst:
  "map (\<lambda>job. (fst (fst job), snd job)) (List.product cs yms) = List.product (map fst cs) yms"
  by (induction cs) simp_all

lemma filter_product_fst:
  assumes "distinct xs" "c \<in> set xs"
  shows "length (filter (\<lambda>k. fst k = c) (List.product xs ys)) = length ys"
  using assms
proof (induction xs)
  case Nil
  then show ?case by simp
next
  case (Cons x xs)
  show ?case
  proof (cases "x = c")
    case True
    then have "c \<notin> set xs" using Cons.prems by simp
    then have "filter (\<lambda>k. fst k = c) (List.product xs ys) = []"
      by (auto simp: filter_empty_conv)
    then show ?thesis using True by (simp add: filter_map comp_def)
  next
    case False
    then have "c \<in> set xs" using Cons.prems by auto
    then have "length (filter (\<lambda>k. fst k = c) (List.product xs ys)) = length ys"
      using Cons.IH Cons.prems by simp
    then show ?thesis using False by (simp add: filter_map comp_def)
  qed
qed

lemma length_filter_country:
  "length (filter (\<lambda>r. Country r = c) T) = length (filter (\<lambda>k. fst k = c) (map row_key T))"
  by (simp add: filter_map comp_def row_key_def)

text \<open>
  Claim C9. The base table has exactly one record for every country of the reference
  data, every year of 2018..2022 and every month of 1..12, in that order: its keys are
  pairwise distinct, each of the 65 countries has 60 records, and the table has
  60 * 65 rows.
\<close>

theorem one_record_per_key:
  "\<exists>T g'. generate_tourism_dataset R g = Inr (T, g') \<and>
     map row_key T = List.product (map fst countries_data) (List.product years months) \<and>
     distinct (map row_key T) \<and>
     length countries_data = 65 \<and>
     length T = 60 * 65 \<and>
     list_all (\<lambda>country. length (filter (\<lambda>r. Country r = country) T) = 60)
       (map fst countries_data) \<and>
     years = [2018, 2019, 2020, 2021, 2022] \<and>
     months = [1, 2, 3, 4, 5, 6, 7, 8, 9, 10, 11, 12]"
proof -
  obtain T g' where run: "generate_tourism_dataset R g = Inr (T, g')"
    and rows: "list_all2 (produced_by R)
      (List.product countries_data (List.product years months)) T"
    using generate_structure[of R g] by blast
  have keys: "map row_key T = List.product (map fst countries_data) (List.product years months)"
    using list_all2_imp_map_eq[OF rows, of row_key "\<lambda>job. (fst (fst job), snd job)"]
    by (simp add: produced_by_key product_map_fst)
  have dy: "distinct years" by (simp add: years_def)
  have dm: "distinct months" by (simp add: months_eq)
  have dist: "distinct (map row_key T)"
    unfolding keys by (intro distinct_product names_distinct dy dm)
  have n: "length countries_data = 65" by (simp add: countries_data_def)
  have ly: "length years = 5" by (simp add: years_def)
  have lm: "length months = 12" by (simp add: months_eq)
  have "length (map row_key T) = 60 * 65"
    unfolding keys by (simp add: n ly lm)
  then have len: "length T = 60 * 65" by simp
  have per: "list_all (\<lambda>country. length (filter (\<lambda>r. Country r = country) T) = 60)
       (map fst countries_data)"
    unfolding list_all_iff length_filter_country keys
    using filter_product_fst[OF names_distinct, of _ "List.product years months"]
    by (simp add: ly lm)
  show ?thesis
    using run keys dist n len per years_def months_eq by blast
qed

lemma upper_uni:
  "upper (take 3 ''United States'') = ''UNI''"
  "upper (take 3 ''United Kingdom'') = ''UNI''"
  "upper (take 3 ''United Arab Emirates'') = ''UNI''"
  by (simp_all add: upper_def upper_char_def)

lemma produced_by_code:
  assumes "produced_by R job r"
  shows "Country_Code r = upper (take 3 (Country r))"
proof -
  from assms obtain c info y m where "produced_by R ((c, info), (y, m)) r"
    by (rule produced_by_cases)
  from produced_by_row[OF this] show ?thesis by auto
qed

text \<open>
  Claim C10. In every record the country code is the first three characters of the
  country name in upper case; the table has records of United States, United Kingdom
  and United Arab Emirates, all three with the code UNI, so the code does not identify
  the country.
\<close>

theorem country_code_prefix:
  "\<exists>T g'. generate_tourism_dataset R g = Inr (T, g') \<and>
     map Country_Code T = map (\<lambda>r. upper (take 3 (Country r))) T \<and>
     (\<exists>r1 r2 r3. r1 \<in> set T \<and> r2 \<in> set T \<and> r3 \<in> set T \<and>
        Country r1 = ''United States'' \<and> Country r2 = ''United Kingdom'' \<and>
        Country r3 = ''United Arab Emirates'' \<and>
        Country_Code r1 = ''UNI'' \<and> Country_Code r2 = ''UNI'' \<and> Country_Code r3 = ''UNI'')"
proof -
  obtain T g' where run: "generate_tourism_dataset R g = Inr (T, g')"
    and rows: "list_all2 (produced_by R)
      (List.product countries_data (List.product years months)) T"
    using generate_structure[of R g] by blast
  have codes: "list_all (\<lambda>r. Country_Code r = upper (take 3 (Country r))) T"
    by (rule list_all2_imp_list_all[OF rows]) (rule produced_by_code)
  then have eq: "map Country_Code T = map (\<lambda>r. upper (take 3 (Country r))) T"
    by (simp add: list_all_iff)
  have keys: "map row_key T = List.product (map fst countries_data) (List.product years months)"
    using list_all2_imp_map_eq[OF rows, of row_key "\<lambda>job. (fst (fst job), snd job)"]
    by (simp add: produced_by_key product_map_fst)
  have ex: "\<exists>r \<in> set T. Country r = c" if "c \<in> set (map fst countries_data)" for c
  proof -
    have "(c, 2018, 1) \<in> set (List.product (map fst countries_data) (List.product years months))"
      using that by (simp add: years_def months_eq)
    then have "(c, 2018, 1) \<in> set (map row_key T)" by (simp only: keys)
    then show ?thesis by (auto simp: row_key_def)
  qed
  have "''United States'' \<in> set (map fst countries_data)"
    "''United Kingdom'' \<in> set (map fst countries_data)"
    "''United Arab Emirates'' \<in> set (map fst countries_data)"
    by (simp_all add: countries_data_def)
  then obtain r1 r2 r3 where r: "r1 \<in> set T" "Country r1 = ''United States''"
    "r2 \<in> set T" "Country r2 = ''United Kingdom''"
    "r3 \<in> set T" "Country r3 = ''United Arab Emirates''"
    using ex by metis
  then have "Country_Code r1 = ''UNI''" "Country_Code r2 = ''UNI''" "Country_Code r3 = ''UNI''"
    using codes upper_uni by (auto simp: list_all_iff)
  with r eq run show ?thesis by blast
qed

section \<open>Derived tables and reproducibility\<close>

lemma hotel_row_key: "row_key (fst (hotel_bookings_row R row g)) = row_key row"
  by (simp add: hotel_bookings_row_def row_key_def Let_def case_prod_beta)

lemma flight_row_key: "row_key (fst (flight_data_row R row g)) = row_key row"
  by (simp add: flight_data_row_def row_key_def Let_def case_prod_beta)

lemma revenue_row_key: "row_key (fst (tourism_revenue_row R row g)) = row_key row"
  by (simp add: tourism_revenue_row_def row_key_def Let_def case_prod_beta)

lemma hotel_bookings_loop_rows:
  "\<exists>new. fst (hotel_bookings_loop R rows data g) = data @ new \<and>
     list_all2 (\<lambda>row h. \<exists>g0. h = fst (hotel_bookings_row R row g0)) rows new"
proof (induction rows arbitrary: data g)
  case Nil
  then show ?case by simp
next
  case (Cons row rows)
  obtain new where new:
    "fst (hotel_bookings_loop R rows (data @ [fst (hotel_bookings_row R row g)])
        (snd (hotel_bookings_row R row g))) = (data @ [fst (hotel_bookings_row R row g)]) @ new"
    "list_all2 (\<lambda>row h. \<exists>g0. h = fst (hotel_bookings_row R row g0)) rows new"
    using Cons.IH by blast
  have "fst (hotel_bookings_loop R (row # rows) data g) =
      data @ (fst (hotel_bookings_row R row g) # new)"
    using new(1) by (simp add: case_prod_beta)
  moreover have "list_all2 (\<lambda>row h. \<exists>g0. h = fst (hotel_bookings_row R row g0))
      (row # rows) (fst (hotel_bookings_row R row g) # new)"
    using new(2) by auto
  ultimately show ?case by blast
qed

lemma flight_data_loop_rows:
  "\<exists>new. fst (flight_data_loop R rows data g) = data @ new \<and>
     list_all2 (\<lambda>row h. \<exists>g0. h = fst (flight_data_row R row g0)) rows new"
proof (induction rows arbitrary: data g)
  case Nil
  then show ?case by simp
next
  case (Cons row rows)
  obtain new where new:
    "fst (flight_data_loop R rows (data @ [fst (flight_data_row R row g)])
        (snd (flight_data_row R row g))) = (data @ [fst (flight_data_row R row g)]) @ new"
    "list_all2 (\<lambda>row h. \<exists>g0. h = fst (flight_data_row R row g0)) rows new"
    using Cons.IH by blast
  have "fst (flight_data_loop R (row # rows) data g) =
      data @ (fst (flight_data_row R row g) # new)"
    using new(1) by (simp add: case_prod_beta)
  moreover have "list_all2 (\<lambda>row h. \<exists>g0. h = fst (flight_data_row R row g0))
      (row # rows) (fst (flight_data_row R row g) # new)"
    using new(2) by auto
  ultimately show ?case by blast
qed

lemma tourism_revenue_loop_rows:
  "\<exists>new. fst (tourism_revenue_loop R rows data g) = data @ new \<and>
     list_all2 (\<lambda>row h. \<exists>g0. h = fst (tourism_revenue_row R row g0)) rows new"
proof (induction rows arbitrary: data g)
  case Nil
  then show ?case by simp
next
  case (Cons row rows)
  obtain new where new:
    "fst (tourism_revenue_loop R rows (data @ [fst (tourism_revenue_row R row g)])
        (snd (tourism_revenue_row R row g))) = (data @ [fst (tourism_revenue_row R row g)]) @ new"
    "list_all2 (\<lambda>row h. \<exists>g0. h = fst (tourism_revenue_row R row g0)) rows new"
    using Cons.IH by blast
  have "fst (tourism_revenue_loop R (row # rows) data g) =
      data @ (fst (tourism_revenue_row R row g) # new)"
    using new(1) by (simp add: case_prod_beta)
  moreover have "list_all2 (\<lambda>row h. \<exists>g0. h = fst (tourism_revenue_row R row g0))
      (row # rows) (fst (tourism_revenue_row R row g) # new)"
    using new(2) by auto
  ultimately show ?case by blast
qed

lemma hotel_dataset:
  "length (fst (generate_hotel_bookings_dataset R df g)) = length df \<and>
   map row_key (fst (generate_hotel_bookings_dataset R df g)) = map row_key df \<and>
   list_all2 (\<lambda>row h. \<exists>g0. h = fst (hotel_bookings_row R row g0)) df
     (fst (generate_hotel_bookings_dataset R df g))"
proof -
  obtain new where new: "fst (generate_hotel_bookings_dataset R df g) = new"
    "list_all2 (\<lambda>row h. \<exists>g0. h = fst (hotel_bookings_row R row g0)) df new"
    using hotel_bookings_loop_rows[of R df "[]" g]
    by (auto simp: generate_hotel_bookings_dataset_def)
  have "map row_key new = map row_key df"
    by (rule list_all2_imp_map_eq[OF new(2)]) (auto simp: hotel_row_key)
  with new list_all2_lengthD[OF new(2)] show ?thesis by simp
qed

lemma flight_dataset:
  "length (fst (generate_flight_data_dataset R df g)) = length df \<and>
   map row_key (fst (generate_flight_data_dataset R df g)) = map row_key df \<and>
   list_all2 (\<lambda>row h. \<exists>g0. h = fst (flight_data_row R row g0)) df
     (fst (generate_flight_data_dataset R df g))"
proof -
  obtain new where new: "fst (generate_flight_data_dataset R df g) = new"
    "list_all2 (\<lambda>row h. \<exists>g0. h = fst (flight_data_row R row g0)) df new"
    using flight_data_loop_rows[of R df "[]" g]
    by (auto simp: generate_flight_data_dataset_def)
  have "map row_key new = map row_key df"
    by (rule list_all2_imp_map_eq[OF new(2)]) (auto simp: flight_row_key)
  with new list_all2_lengthD[OF new(2)] show ?thesis by simp
qed

lemma revenue_dataset:
  "length (fst (generate_tourism_revenue_dataset R df g)) = length df \<and>
   map row_key (fst (generate_tourism_revenue_dataset R df g)) = map row_key df \<and>
   list_all2 (\<lambda>row h. \<exists>g0. h = fst (tourism_revenue_row R row g0)) df
     (fst (generate_tourism_revenue_dataset R df g))"
proof -
  obtain new where new: "fst (generate_tourism_revenue_dataset R df g) = new"
    "list_all2 (\<lambda>row h. \<exists>g0. h = fst (tourism_revenue_row R row g0)) df new"
    using tourism_revenue_loop_rows[of R df "[]" g]
    by (auto simp: generate_tourism_revenue_dataset_def)
  have "map row_key new = map row_key df"
    by (rule list_all2_imp_map_eq[OF new(2)]) (auto simp: revenue_row_key)
  with new list_all2_lengthD[OF new(2)] show ?thesis by simp
qed

text \<open>
  Claim C2. For every base table, each of the three derived generators returns a table
  with as many rows as the base table and the same keys in the same order (hence the
  same key set), and its \<open>i\<close>-th row is the row function applied to the \<open>i\<close>-th base
  row alone, at some state of the random source.
\<close>

theorem derived_tables_follow_base:
  "(length (fst (generate_hotel_bookings_dataset R df g)) = length df \<and>
    map row_key (fst (generate_hotel_bookings_dataset R df g)) = map row_key df \<and>
    list_all2 (\<lambda>row h. \<exists>g0. h = fst (hotel_bookings_row R row g0)) df
      (fst (generate_hotel_bookings_dataset R df g))) \<and>
   (length (fst (generate_flight_data_dataset R df g)) = length df \<and>
    map row_key (fst (generate_flight_data_dataset R df g)) = map row_key df \<and>
    list_all2 (\<lambda>row h. \<exists>g0. h = fst (flight_data_row R row g0)) df
      (fst (generate_flight_data_dataset R df g))) \<and>
   (length (fst (generate_tourism_revenue_dataset R df g)) = length df \<and>
    map row_key (fst (generate_tourism_revenue_dataset R df g)) = map row_key df \<and>
    list_all2 (\<lambda>row h. \<exists>g0. h = fst (tourism_revenue_row R row g0)) df
      (fst (generate_tourism_revenue_dataset R df g)))"
  using hotel_dataset[of R df g] flight_dataset[of R df g] revenue_dataset[of R df g]
  by (intro conjI) simp_all












section \<open>Arrivals per capita\<close>











end
